theory Spec2Isabelle
  imports Complex_Main "HOL-Library.AList"
begin

section \<open>Shrync: the job lifecycle engine of \<open>app/main.py\<close>\<close>

text \<open>
  The development embeds the parts of \<open>app/main.py\<close> that decide the behaviour of the
  queue: the settings helper, the profile table, the scanner, the conversion of one job,
  the watcher's deferred enqueue, the startup clean-up and the two queue routes of the
  HTTP interface. The database tables are lists of rows in insertion order, the file
  system is a map from paths to file contents, and everything the process only observes
  (environment variables, the probe, the transcoder, failing system calls, the clock)
  is an explicit argument.
\<close>

subsection \<open>Python strings\<close>

text \<open>\<open>s.startswith(p)\<close>, \<open>s.endswith(p)\<close> and \<open>p in s\<close> on strings.\<close>

fun startswith :: "string \<Rightarrow> string \<Rightarrow> bool" where
  "startswith s [] = True"
| "startswith [] (p # ps) = False"
| "startswith (c # cs) (p # ps) = (c = p \<and> startswith cs ps)"

definition endswith :: "string \<Rightarrow> string \<Rightarrow> bool" where
  "endswith s p = startswith (rev s) (rev p)"

fun str_in :: "string \<Rightarrow> string \<Rightarrow> bool" where
  "str_in p [] = (p = [])"
| "str_in p (c # cs) = (startswith (c # cs) p \<or> str_in p cs)"

text \<open>\<open>s.lower()\<close>; only the ASCII capitals change in this model.\<close>

definition lower_char :: "char \<Rightarrow> char" where
  "lower_char c =
     (case map_of (zip ''ABCDEFGHIJKLMNOPQRSTUVWXYZ'' ''abcdefghijklmnopqrstuvwxyz'') c of
        Some d \<Rightarrow> d
      | None \<Rightarrow> c)"

definition lower :: "string \<Rightarrow> string" where
  "lower s = map lower_char s"

text \<open>\<open>s.strip()\<close> removes leading and trailing white space.\<close>

definition is_space :: "char \<Rightarrow> bool" where
  "is_space c = (c \<in> set [CHR '' '', CHR 0x09, CHR 0x0A, CHR 0x0B, CHR 0x0C, CHR 0x0D])"

definition strip :: "string \<Rightarrow> string" where
  "strip s = rev (dropWhile is_space (rev (dropWhile is_space s)))"

text \<open>\<open>s.split(c)\<close> for a one-character separator: always at least one piece.\<close>

fun split_on :: "char \<Rightarrow> string \<Rightarrow> string list" where
  "split_on sep [] = [[]]"
| "split_on sep (c # cs) =
     (if c = sep then [] # split_on sep cs
      else (case split_on sep cs of
              [] \<Rightarrow> [[c]]
            | w # ws \<Rightarrow> (c # w) # ws))"

text \<open>\<open>s[-n:]\<close> and \<open>s[:n]\<close>.\<close>

definition last_chars :: "nat \<Rightarrow> string \<Rightarrow> string" where
  "last_chars n s = drop (length s - n) s"

subsection \<open>Python integers as text\<close>

text \<open>
  \<open>str(i)\<close> and \<open>int(s)\<close> for decimal text. \<open>int\<close> accepts surrounding white space, one
  sign and single underscores between digits, and raises \<open>ValueError\<close> (here \<open>None\<close>)
  on anything else.
\<close>

definition is_digit :: "char \<Rightarrow> bool" where
  "is_digit c = (48 \<le> (of_char c :: nat) \<and> (of_char c :: nat) \<le> 57)"

definition digit_val :: "char \<Rightarrow> int" where
  "digit_val c = int (of_char c) - 48"

definition digit_char :: "nat \<Rightarrow> char" where
  "digit_char d = ''0123456789'' ! d"

fun str_nat :: "nat \<Rightarrow> string" where
  "str_nat n =
     (if n < 10 then [digit_char n] else str_nat (n div 10) @ [digit_char (n mod 10)])"

declare str_nat.simps [simp del]

definition str_int :: "int \<Rightarrow> string" where
  "str_int i = (if i < 0 then CHR ''-'' # str_nat (nat (- i)) else str_nat (nat i))"

fun parse_digits :: "int \<Rightarrow> bool \<Rightarrow> string \<Rightarrow> int option" where
  "parse_digits acc prev [] = (if prev then Some acc else None)"
| "parse_digits acc prev (c # cs) =
     (if is_digit c then parse_digits (10 * acc + digit_val c) True cs
      else if c = CHR ''_'' \<and> prev then parse_digits acc False cs
      else None)"

definition py_int :: "string \<Rightarrow> int option" where
  "py_int s =
     (case strip s of
        [] \<Rightarrow> None
      | c # r \<Rightarrow>
          if c = CHR ''-'' then map_option uminus (parse_digits 0 False r)
          else if c = CHR ''+'' then parse_digits 0 False r
          else parse_digits 0 False (c # r))"

subsection \<open>Paths\<close>

text \<open>
  \<open>os.path.join\<close> for two POSIX components, and the \<open>name\<close>, \<open>stem\<close>, \<open>suffix\<close> and
  \<open>parent\<close> of a \<open>pathlib.Path\<close>: empty and \<open>.\<close> components are dropped, the name is
  the last component, and the suffix starts at the last dot of the name unless that dot
  is its first or last character.
\<close>

definition os_path_join :: "string \<Rightarrow> string \<Rightarrow> string" where
  "os_path_join a b =
     (if startswith b ''/'' then b
      else if a = [] \<or> endswith a ''/'' then a @ b
      else a @ ''/'' @ b)"

definition path_parts :: "string \<Rightarrow> string list" where
  "path_parts p = filter (\<lambda>w. w \<noteq> [] \<and> w \<noteq> ''.'') (split_on CHR ''/'' p)"

definition path_name :: "string \<Rightarrow> string" where
  "path_name p = (case path_parts p of [] \<Rightarrow> [] | w # ws \<Rightarrow> last (w # ws))"

definition rfind :: "char \<Rightarrow> string \<Rightarrow> int" where
  "rfind c s =
     (case filter (\<lambda>i. s ! i = c) (rev [0..<length s]) of
        [] \<Rightarrow> - 1
      | i # _ \<Rightarrow> int i)"

definition path_suffix :: "string \<Rightarrow> string" where
  "path_suffix p =
     (let name = path_name p; i = rfind CHR ''.'' name
      in if 0 < i \<and> i < int (length name) - 1 then drop (nat i) name else [])"

definition path_stem :: "string \<Rightarrow> string" where
  "path_stem p =
     (let name = path_name p; i = rfind CHR ''.'' name
      in if 0 < i \<and> i < int (length name) - 1 then take (nat i) name else name)"

fun join_with :: "string \<Rightarrow> string list \<Rightarrow> string" where
  "join_with sep [] = []"
| "join_with sep [w] = w"
| "join_with sep (w # v # ws) = w @ sep @ join_with sep (v # ws)"

definition path_root :: "string \<Rightarrow> string" where
  "path_root p =
     (let n = length (takeWhile (\<lambda>c. c = CHR ''/'') p)
      in if n = 0 then [] else if n = 2 then ''//'' else ''/'')"

definition path_parent :: "string \<Rightarrow> string" where
  "path_parent p =
     (let r = path_root p; d = r @ join_with ''/'' (butlast (path_parts p))
      in if d = [] then ''.'' else d)"

subsection \<open>Tables and process state\<close>

text \<open>
  The \<open>status\<close> columns hold the texts \<open>pending\<close>, \<open>processing\<close>, \<open>error\<close> (queue) and
  \<open>success\<close>, \<open>error\<close> (history). Time stamps are the ISO texts the clock returned.
  The \<open>added_at\<close> column and the codec columns of \<open>libraries\<close> are read by none of the
  functions below and are left out; a table is the list of its rows, oldest first.
\<close>

datatype job_status = St_pending | St_processing | St_error

datatype hist_status = H_success | H_error

type_synonym timestamp = string

record job =
  job_id :: string
  job_library_id :: "string option"
  job_file_path :: string
  job_file_size :: int
  job_status :: job_status
  job_progress :: int
  job_fps :: rat
  job_eta :: string
  job_started_at :: "timestamp option"
  job_finished_at :: "timestamp option"
  job_error_msg :: "string option"
  job_original_size :: int
  job_new_size :: int

record hist =
  h_id :: string
  h_library_id :: "string option"
  h_file_path :: string
  h_original_size :: int
  h_new_size :: int
  h_duration_seconds :: int
  h_status :: hist_status
  h_error_msg :: "string option"
  h_finished_at :: timestamp

record library =
  lib_id :: string
  lib_name :: string
  lib_path :: string
  lib_enabled :: bool
  lib_scan_interval :: int
  lib_last_scan :: "timestamp option"

datatype scan_state = Scanning | Scan_done | Scan_error

record scan_info =
  ss_status :: scan_state
  ss_scanned :: nat
  ss_added :: nat
  ss_skipped :: nat
  ss_already_converted :: nat
  ss_current_file :: string
  ss_path :: string
  ss_error :: "string option"

text \<open>
  The mutable world: the four tables, the regular files by path, the \<open>active_jobs\<close>
  dictionary (slot name to job id and process handle), the child processes with their
  \<open>returncode\<close> (\<open>None\<close> while none has been collected), the \<open>scan_status\<close>
  dictionary, and how many identifiers \<open>uuid.uuid4()\<close> and how many child processes
  the system has handed out.
\<close>

record state =
  libraries :: "library list"
  queue :: "job list"
  history :: "hist list"
  settings :: "string \<rightharpoonup> string"
  files :: "string \<rightharpoonup> string"
  active_jobs :: "(string \<times> (string \<times> nat)) list"
  procs :: "nat \<rightharpoonup> int option"
  scan_status :: "string \<rightharpoonup> scan_info"
  uuids_drawn :: nat
  pids_spawned :: nat

text \<open>A directory as \<open>os.walk\<close> sees it: sub-directories and file names, in listing order.\<close>

datatype tree = Tree "(string \<times> tree) list" "string list"

text \<open>
  What one run of the transcoder does when nobody interferes: whether \<open>Popen\<close> fails,
  the lines on standard output and whether reading them fails, the text on standard
  error, the exit code and the bytes left at the output path.
\<close>

record ffmpeg_run =
  ff_spawn_error :: "string option"
  ff_stdout :: "string list"
  ff_read_fails :: bool
  ff_stderr :: string
  ff_returncode :: int
  ff_output :: "string option"

text \<open>
  What the process is given and what it can only observe: the two environment
  variables, the source of fresh identifiers, the answers of \<open>ffprobe\<close> (\<open>None\<close> for any
  failure, a stream as its \<open>codec_type\<close> and \<open>codec_name\<close>), the interpreter's \<open>float\<close>
  on text (\<open>None\<close> for \<open>ValueError\<close>; double-precision values are taken as the rationals
  they denote, infinities and NaN are outside the model), the directory listing, the
  system calls that fail (with the message of the error), and the transcoder.
\<close>

record env =
  CACHE_DIR :: string
  GPU_MODE :: "string option"
  uuid4 :: "nat \<Rightarrow> string"
  ffprobe_streams :: "string \<Rightarrow> (string \<times> string) list option"
  ffprobe_duration :: "string \<Rightarrow> rat option"
  py_float :: "string \<Rightarrow> rat option"
  dir_tree :: "string \<Rightarrow> tree option"
  listdir_fails :: "string \<Rightarrow> bool"
  remove_error :: "string \<Rightarrow> string option"
  rename_error :: "string \<Rightarrow> string \<Rightarrow> string option"
  ffmpeg :: "string list \<Rightarrow> ffmpeg_run"

datatype py_exception =
  FileNotFoundError string
  | OSError string
  | HTTPException int string

subsection \<open>Settings helper\<close>

definition get_global_setting :: "state \<Rightarrow> string \<Rightarrow> string \<Rightarrow> string" where
  "get_global_setting st key dflt = (case settings st key of Some v \<Rightarrow> v | None \<Rightarrow> dflt)"


subsection \<open>Profiles and the probe\<close>

definition VIDEO_EXTENSIONS :: "string list" where
  "VIDEO_EXTENSIONS = [''.mkv'', ''.mp4'', ''.avi'', ''.mov'', ''.m4v'', ''.ts'', ''.wmv'', ''.flv'']"

definition PROFILES :: "(string \<times> (string \<times> string \<times> string)) list" where
  "PROFILES =
     [(''nvenc_max'', (''hevc_nvenc'', ''p7'', ''19'')),
      (''nvenc_high'', (''hevc_nvenc'', ''p6'', ''23'')),
      (''nvenc_balanced'', (''hevc_nvenc'', ''p4'', ''26'')),
      (''cpu_slow'', (''libx265'', ''slow'', ''22'')),
      (''cpu_medium'', (''libx265'', ''medium'', ''24'')),
      (''cpu_fast'', (''libx265'', ''fast'', ''26'')),
      (''h264_nvenc'', (''h264_nvenc'', ''p6'', ''20'')),
      (''h264_cpu'', (''libx264'', ''medium'', ''22''))]"

text \<open>\<open>PROFILES.get(profile_id, PROFILES["nvenc_max"])\<close>.\<close>

definition profile_to_ffmpeg :: "string \<Rightarrow> string \<times> string \<times> string" where
  "profile_to_ffmpeg profile_id =
     (case map_of PROFILES profile_id of
        Some t \<Rightarrow> t
      | None \<Rightarrow> (''hevc_nvenc'', ''p7'', ''19''))"

text \<open>
  The loop of \<open>needs_conversion\<close> over the probed streams; a stream without a
  \<open>codec_name\<close> has the empty name.
\<close>

fun streams_need_conversion :: "string \<Rightarrow> (string \<times> string) list \<Rightarrow> bool" where
  "streams_need_conversion target_codec [] = True"
| "streams_need_conversion target_codec ((codec_type, current) # streams) =
     (if codec_type = ''video'' \<and> str_in ''hevc'' target_codec
           \<and> (current = ''hevc'' \<or> current = ''h265'') then False
      else if codec_type = ''video'' \<and> str_in ''h264'' target_codec \<and> current = ''h264''
        then False
      else streams_need_conversion target_codec streams)"

definition needs_conversion :: "env \<Rightarrow> string \<Rightarrow> string \<Rightarrow> bool" where
  "needs_conversion e file_path target_codec =
     (case ffprobe_streams e file_path of
        None \<Rightarrow> True
      | Some streams \<Rightarrow> streams_need_conversion target_codec streams)"

subsection \<open>Queries and system calls\<close>

text \<open>
  The two duplicate queries, each followed by \<open>fetchone()\<close>:
  \<open>SELECT id FROM queue WHERE file_path=? AND status IN ('pending','processing')\<close> and
  \<open>SELECT id FROM history WHERE file_path=? AND status='success'\<close>.
\<close>

definition select_existing :: "state \<Rightarrow> string \<Rightarrow> job option" where
  "select_existing st fpath =
     find (\<lambda>j. job_file_path j = fpath
                \<and> (job_status j = St_pending \<or> job_status j = St_processing)) (queue st)"

definition select_done :: "state \<Rightarrow> string \<Rightarrow> hist option" where
  "select_done st fpath =
     find (\<lambda>h. h_file_path h = fpath \<and> h_status h = H_success) (history st)"

definition select_job :: "state \<Rightarrow> string \<Rightarrow> job option" where
  "select_job st jid = find (\<lambda>j. job_id j = jid) (queue st)"

text \<open>\<open>UPDATE queue SET ... WHERE id=?\<close> and \<open>DELETE FROM queue WHERE id=?\<close>.\<close>

definition update_job :: "string \<Rightarrow> (job \<Rightarrow> job) \<Rightarrow> state \<Rightarrow> state" where
  "update_job jid f st =
     st\<lparr>queue := map (\<lambda>j. if job_id j = jid then f j else j) (queue st)\<rparr>"

definition delete_job :: "string \<Rightarrow> state \<Rightarrow> state" where
  "delete_job jid st = st\<lparr>queue := filter (\<lambda>j. job_id j \<noteq> jid) (queue st)\<rparr>"

text \<open>
  \<open>INSERT INTO queue (id, library_id, file_path, file_size[, status])\<close>: the other
  columns take the defaults of the table, \<open>pending\<close> for the status.
\<close>

definition new_job :: "string \<Rightarrow> string option \<Rightarrow> string \<Rightarrow> int \<Rightarrow> job" where
  "new_job jid library_id fpath fsize =
     \<lparr>job_id = jid, job_library_id = library_id, job_file_path = fpath,
      job_file_size = fsize, job_status = St_pending, job_progress = 0, job_fps = 0,
      job_eta = [], job_started_at = None, job_finished_at = None, job_error_msg = None,
      job_original_size = 0, job_new_size = 0\<rparr>"

definition insert_job :: "job \<Rightarrow> state \<Rightarrow> state" where
  "insert_job j st = st\<lparr>queue := queue st @ [j]\<rparr>"

definition insert_history :: "hist \<Rightarrow> state \<Rightarrow> state" where
  "insert_history h st = st\<lparr>history := history st @ [h]\<rparr>"

text \<open>\<open>str(uuid.uuid4())\<close>: the next value of the supply.\<close>

definition draw_uuid :: "env \<Rightarrow> state \<Rightarrow> string \<times> state" where
  "draw_uuid e st = (uuid4 e (uuids_drawn st), st\<lparr>uuids_drawn := Suc (uuids_drawn st)\<rparr>)"

text \<open>
  \<open>os.path.exists\<close>, \<open>os.path.getsize\<close>, \<open>os.remove\<close> and \<open>os.rename\<close> on regular files.
  A call fails when its file is missing or when the environment says so (for example
  a rename across file systems), with the message of the \<open>OSError\<close>.
\<close>

definition exists_file :: "state \<Rightarrow> string \<Rightarrow> bool" where
  "exists_file st p = (files st p \<noteq> None)"

definition getsize :: "state \<Rightarrow> string \<Rightarrow> py_exception + int" where
  "getsize st p =
     (case files st p of
        None \<Rightarrow> Inl (FileNotFoundError p)
      | Some d \<Rightarrow> Inr (int (length d)))"

definition os_remove :: "env \<Rightarrow> string \<Rightarrow> state \<Rightarrow> py_exception + state" where
  "os_remove e p st =
     (if files st p = None then Inl (FileNotFoundError p)
      else (case remove_error e p of
              Some msg \<Rightarrow> Inl (OSError msg)
            | None \<Rightarrow> Inr (st\<lparr>files := (files st)(p := None)\<rparr>)))"

definition os_rename :: "env \<Rightarrow> string \<Rightarrow> string \<Rightarrow> state \<Rightarrow> py_exception + state" where
  "os_rename e a b st =
     (case files st a of
        None \<Rightarrow> Inl (FileNotFoundError a)
      | Some d \<Rightarrow>
          (case rename_error e a b of
             Some msg \<Rightarrow> Inl (OSError msg)
           | None \<Rightarrow> Inr (st\<lparr>files := ((files st)(a := None))(b \<mapsto> d)\<rparr>)))"

text \<open>\<open>if os.path.exists(p): try: os.remove(p) except: pass\<close>.\<close>

definition remove_if_exists :: "env \<Rightarrow> string \<Rightarrow> state \<Rightarrow> state" where
  "remove_if_exists e p st =
     (if exists_file st p then (case os_remove e p st of Inl _ \<Rightarrow> st | Inr st' \<Rightarrow> st')
      else st)"

text \<open>The text of an exception, as \<open>f"{e}"\<close> prints it.\<close>

fun exception_text :: "py_exception \<Rightarrow> string" where
  "exception_text (FileNotFoundError p) = ''[Errno 2] No such file or directory: '' @ p"
| "exception_text (OSError msg) = msg"
| "exception_text (HTTPException code detail) = detail"

subsection \<open>Scanner\<close>

record counters =
  c_scanned :: nat
  c_added :: nat
  c_skipped :: nat
  c_already_converted :: nat

text \<open>
  \<open>scan_status[library_id][key] = value\<close>. The entry is written when the scan starts,
  so the update always finds it.
\<close>

definition set_scan :: "string \<Rightarrow> (scan_info \<Rightarrow> scan_info) \<Rightarrow> state \<Rightarrow> state" where
  "set_scan library_id f st =
     (case scan_status st library_id of
        None \<Rightarrow> st
      | Some i \<Rightarrow> st\<lparr>scan_status := (scan_status st)(library_id \<mapsto> f i)\<rparr>)"

text \<open>
  \<open>os.walk(path)\<close> with the pruning of hidden directories, flattened to the pairs of
  \<open>root\<close> (named \<open>dirpath\<close> here) and \<open>fname\<close> the inner loop sees, in order.
\<close>

fun os_walk :: "string \<Rightarrow> tree \<Rightarrow> (string \<times> string) list" where
  "os_walk dirpath (Tree dirs fnames) =
     map (Pair dirpath) fnames
     @ concat (map (\<lambda>dt. os_walk (os_path_join dirpath (fst dt)) (snd dt))
                 (filter (\<lambda>dt. \<not> startswith (fst dt) ''.'') dirs))"

text \<open>
  The body of the inner loop for one file name. The result carries the exception that
  leaves the scan, if any (\<open>os.path.getsize\<close> on a name that cannot be read).
\<close>

definition scan_file ::
  "env \<Rightarrow> string \<Rightarrow> string \<Rightarrow> string \<Rightarrow> state \<Rightarrow> counters
     \<Rightarrow> state \<times> counters \<times> py_exception option" where
  "scan_file e library_id dirpath fname st c =
     (if lower (path_suffix fname) \<notin> set VIDEO_EXTENSIONS then (st, c, None)
      else
        let fpath = os_path_join dirpath fname in
        if str_in ''_shrync_'' fname then (st, c, None)
        else if CACHE_DIR e \<noteq> [] \<and> str_in (CACHE_DIR e) fpath then (st, c, None)
        else
          let c1 = c\<lparr>c_scanned := c_scanned c + 1\<rparr>;
              st1 = set_scan library_id
                      (\<lambda>i. i\<lparr>ss_scanned := c_scanned c1, ss_current_file := fname\<rparr>) st
          in
          if select_existing st1 fpath \<noteq> None then
            (let c2 = c1\<lparr>c_skipped := c_skipped c1 + 1\<rparr>
             in (set_scan library_id (\<lambda>i. i\<lparr>ss_skipped := c_skipped c2\<rparr>) st1, c2, None))
          else if select_done st1 fpath \<noteq> None then
            (let c2 = c1\<lparr>c_skipped := c_skipped c1 + 1\<rparr>
             in (set_scan library_id (\<lambda>i. i\<lparr>ss_skipped := c_skipped c2\<rparr>) st1, c2, None))
          else
            let profile_id = get_global_setting st1 ''conversion_profile'' ''nvenc_max'';
                global_codec = fst (profile_to_ffmpeg profile_id)
            in
            if \<not> needs_conversion e fpath global_codec then
              (let c2 = c1\<lparr>c_already_converted := c_already_converted c1 + 1\<rparr>
               in (set_scan library_id
                     (\<lambda>i. i\<lparr>ss_already_converted := c_already_converted c2\<rparr>) st1, c2, None))
            else
              (case getsize st1 fpath of
                 Inl ex \<Rightarrow> (st1, c1, Some ex)
               | Inr fsize \<Rightarrow>
                   let (jid, st2) = draw_uuid e st1;
                       st3 = insert_job (new_job jid (Some library_id) fpath fsize) st2;
                       c2 = c1\<lparr>c_added := c_added c1 + 1\<rparr>
                   in (set_scan library_id (\<lambda>i. i\<lparr>ss_added := c_added c2\<rparr>) st3, c2, None)))"

fun scan_files ::
  "env \<Rightarrow> string \<Rightarrow> (string \<times> string) list \<Rightarrow> state \<Rightarrow> counters
     \<Rightarrow> state \<times> counters \<times> py_exception option" where
  "scan_files e library_id [] st c = (st, c, None)"
| "scan_files e library_id ((dirpath, fname) # rest) st c =
     (case scan_file e library_id dirpath fname st c of
        (st', c', Some ex) \<Rightarrow> (st', c', Some ex)
      | (st', c', None) \<Rightarrow> scan_files e library_id rest st' c')"

text \<open>
  How a call of \<open>scan_library\<close> ends: no such library, an unreadable root, the walk
  completed, or the walk left by an exception; the last two with the local counters.
\<close>

datatype scan_outcome =
  No_library
  | Root_error
  | Completed counters
  | Aborted counters py_exception

definition scan_library :: "env \<Rightarrow> timestamp \<Rightarrow> string \<Rightarrow> state \<Rightarrow> state \<times> scan_outcome" where
  "scan_library e now library_id st =
     (case find (\<lambda>l. lib_id l = library_id) (libraries st) of
        None \<Rightarrow> (st, No_library)
      | Some lib \<Rightarrow>
          let path = lib_path lib;
              st1 = st\<lparr>scan_status := (scan_status st)(library_id \<mapsto>
                      \<lparr>ss_status = Scanning, ss_scanned = 0, ss_added = 0, ss_skipped = 0,
                       ss_already_converted = 0, ss_current_file = [], ss_path = path,
                       ss_error = None\<rparr>)\<rparr>
          in
          (case dir_tree e path of
             None \<Rightarrow>
               (set_scan library_id
                  (\<lambda>i. i\<lparr>ss_status := Scan_error,
                          ss_error := Some (''Map niet gevonden: '' @ path)\<rparr>) st1,
                Root_error)
           | Some t \<Rightarrow>
               if listdir_fails e path then
                 (set_scan library_id
                    (\<lambda>i. i\<lparr>ss_status := Scan_error,
                            ss_error := Some (''Kan map niet lezen: '' @ path)\<rparr>) st1,
                  Root_error)
               else
                 (case scan_files e library_id (os_walk path t) st1
                         \<lparr>c_scanned = 0, c_added = 0, c_skipped = 0, c_already_converted = 0\<rparr> of
                    (st2, c, Some ex) \<Rightarrow> (st2, Aborted c ex)
                  | (st2, c, None) \<Rightarrow>
                      let st3 = st2\<lparr>libraries :=
                                  map (\<lambda>l. if lib_id l = library_id
                                            then l\<lparr>lib_last_scan := Some now\<rparr> else l)
                                    (libraries st2)\<rparr>;
                          st4 = set_scan library_id
                                  (\<lambda>i. i\<lparr>ss_status := Scan_done, ss_current_file := []\<rparr>) st3
                      in (st4, Completed c))))"

definition added_of :: "scan_outcome \<Rightarrow> nat" where
  "added_of r =
     (case r of Completed c \<Rightarrow> c_added c | Aborted c ex \<Rightarrow> c_added c | _ \<Rightarrow> 0)"

definition skipped_of :: "scan_outcome \<Rightarrow> nat" where
  "skipped_of r =
     (case r of Completed c \<Rightarrow> c_skipped c | Aborted c ex \<Rightarrow> c_skipped c | _ \<Rightarrow> 0)"

subsection \<open>Conversion of one job\<close>

text \<open>
  The temporary output of \<open>run_conversion\<close>: the stem of the source, the marker
  \<open>_shrync_\<close>, the first eight characters of the job id and \<open>.mkv\<close>, in the cache
  directory or, when none is configured, beside the source.
\<close>

definition tmp_out_path :: "env \<Rightarrow> string \<Rightarrow> string \<Rightarrow> string" where
  "tmp_out_path e src jid =
     (let src_name = path_stem src @ ''_shrync_'' @ take 8 jid @ ''.mkv'';
          cache = (if CACHE_DIR e \<noteq> [] then CACHE_DIR e else path_parent src)
      in os_path_join cache src_name)"

text \<open>\<open>os.environ.get("GPU_MODE", "cpu").lower()\<close> and the choice of the codec.\<close>

definition gpu_mode :: "env \<Rightarrow> string" where
  "gpu_mode e = lower (case GPU_MODE e of None \<Rightarrow> ''cpu'' | Some v \<Rightarrow> v)"

definition is_nvenc :: "env \<Rightarrow> string \<Rightarrow> bool" where
  "is_nvenc e video_codec = (str_in ''nvenc'' video_codec \<and> gpu_mode e = ''nvidia'')"

definition effective_codec :: "env \<Rightarrow> string \<Rightarrow> string" where
  "effective_codec e video_codec =
     (if str_in ''nvenc'' video_codec \<and> gpu_mode e \<noteq> ''nvidia''
      then (if str_in ''hevc'' video_codec then ''libx265'' else ''libx264'')
      else video_codec)"

definition ffmpeg_cmd ::
  "env \<Rightarrow> string \<Rightarrow> string \<Rightarrow> string \<times> string \<times> string \<Rightarrow> string \<Rightarrow> string list" where
  "ffmpeg_cmd e src tmp_out prof audio_codec =
     (case prof of (video_codec, preset, quality) \<Rightarrow>
        if is_nvenc e video_codec then
          [''ffmpeg'', ''-y'', ''-i'', src, ''-c:v'', effective_codec e video_codec,
           ''-preset'', preset, ''-rc'', ''constqp'', ''-qp'', quality, ''-b:v'', ''0'',
           ''-c:a'', audio_codec, ''-c:s'', ''copy'', ''-progress'', ''pipe:1'', ''-nostats'',
           tmp_out]
        else
          [''ffmpeg'', ''-y'', ''-i'', src, ''-c:v'', effective_codec e video_codec,
           ''-preset'', preset, ''-crf'', quality,
           ''-c:a'', audio_codec, ''-c:s'', ''copy'', ''-progress'', ''pipe:1'', ''-nostats'',
           tmp_out])"

text \<open>The values of the local variables that the later phases of the function read.\<close>

record conv_ctx =
  cx_job :: job
  cx_src :: string
  cx_tmp_out :: string
  cx_duration :: rat
  cx_cmd :: "string list"
  cx_original_size :: int
  cx_pid :: nat
  cx_slot :: string

datatype start_result =
  Returned state
  | Raised state py_exception
  | Started state conv_ctx

text \<open>
  From the top of \<open>run_conversion\<close> to the registration in \<open>active_jobs\<close>: load the
  row, give up on a missing source, build the command, mark the row \<open>processing\<close>,
  start the child. \<open>slot_id\<close> is the name of the worker thread.
\<close>

definition start_conversion ::
  "env \<Rightarrow> string \<Rightarrow> timestamp \<Rightarrow> string \<Rightarrow> state \<Rightarrow> start_result" where
  "start_conversion e slot_id now jid st =
     (case select_job st jid of
        None \<Rightarrow> Returned st
      | Some job \<Rightarrow>
          let src = job_file_path job in
          (case files st src of
             None \<Rightarrow>
               Returned (update_job jid
                 (\<lambda>j. j\<lparr>job_status := St_error,
                         job_error_msg := Some ''Bestand niet gevonden'',
                         job_finished_at := Some now\<rparr>) st)
           | Some content \<Rightarrow>
               let tmp_out = tmp_out_path e src jid;
                   profile = get_global_setting st ''conversion_profile'' ''nvenc_max'';
                   audio_codec = get_global_setting st ''audio_codec'' ''copy'';
                   duration = (case ffprobe_duration e src of Some d \<Rightarrow> d | None \<Rightarrow> 0);
                   cmd = ffmpeg_cmd e src tmp_out (profile_to_ffmpeg profile) audio_codec;
                   original_size = int (length content);
                   st1 = update_job jid
                           (\<lambda>j. j\<lparr>job_status := St_processing, job_started_at := Some now,
                                   job_original_size := original_size\<rparr>) st
               in
               case ff_spawn_error (ffmpeg e cmd) of
                 Some msg \<Rightarrow> Raised st1 (OSError msg)
               | None \<Rightarrow>
                 let pid = pids_spawned st1;
                     st2 = st1\<lparr>pids_spawned := Suc pid,
                              procs := (procs st1)(pid \<mapsto> None),
                              active_jobs := AList.update slot_id (jid, pid) (active_jobs st1)\<rparr>
                 in Started st2
                      \<lparr>cx_job = job, cx_src = src, cx_tmp_out = tmp_out,
                       cx_duration = duration, cx_cmd = cmd,
                       cx_original_size = original_size, cx_pid = pid,
                       cx_slot = slot_id\<rparr>))"

text \<open>
  What a child does to the world: it writes its output file, and it ends with an exit
  code unless a signal ended it before. \<open>process.kill()\<close> ends a running child; its
  return code is then \<open>-9\<close>.
\<close>

definition proc_writes :: "string \<Rightarrow> string \<Rightarrow> state \<Rightarrow> state" where
  "proc_writes path content st = st\<lparr>files := (files st)(path \<mapsto> content)\<rparr>"

definition proc_exits :: "nat \<Rightarrow> int \<Rightarrow> state \<Rightarrow> state" where
  "proc_exits pid rc st =
     (case procs st pid of
        Some None \<Rightarrow> st\<lparr>procs := (procs st)(pid \<mapsto> Some rc)\<rparr>
      | _ \<Rightarrow> st)"

definition proc_kill :: "nat \<Rightarrow> state \<Rightarrow> state" where
  "proc_kill pid st = proc_exits pid (- 9) st"

definition returncode :: "state \<Rightarrow> nat \<Rightarrow> int option" where
  "returncode st pid = (case procs st pid of Some rc \<Rightarrow> rc | None \<Rightarrow> None)"

text \<open>
  \<open>int(x)\<close> on a number truncates towards zero. The values of one \<open>fps=\<close> frame:
  progress and eta from the probed duration, the last \<open>out_time_us\<close> and the frame
  rate.
\<close>

definition py_trunc :: "rat \<Rightarrow> int" where
  "py_trunc x = (if x < 0 then - \<lfloor>- x\<rfloor> else \<lfloor>x\<rfloor>)"

definition progress_frame :: "rat \<Rightarrow> int \<Rightarrow> rat \<Rightarrow> int \<times> string" where
  "progress_frame duration out_time_us fps_val =
     (if duration > 0 then
        let current_sec = of_int out_time_us / 1000000;
            progress = min (py_trunc ((current_sec / duration) * 100)) 99
        in
        if fps_val > 0 then
          let remaining_sec = py_trunc ((duration - current_sec) / fps_val * 25)
          in (progress, str_int (remaining_sec div 60) @ ''m''
                        @ str_int (remaining_sec mod 60) @ ''s'')
        else (progress, [])
      else (0, []))"

text \<open>
  One line of the child's standard output. Every failure inside the two \<open>try\<close> blocks
  (a value that does not parse) leaves the row and \<open>out_time_us\<close> as they were.
\<close>

definition handle_line :: "env \<Rightarrow> string \<Rightarrow> rat \<Rightarrow> string \<Rightarrow> state \<times> int \<Rightarrow> state \<times> int" where
  "handle_line e jid duration raw acc =
     (case acc of (st, out_time_us) \<Rightarrow>
        let line = strip raw in
        if startswith line ''out_time_us='' then
          (case split_on CHR ''='' line of
             _ # v # _ \<Rightarrow>
               (case py_int v of Some n \<Rightarrow> (st, n) | None \<Rightarrow> (st, out_time_us))
           | _ \<Rightarrow> (st, out_time_us))
        else if startswith line ''fps='' then
          (case split_on CHR ''='' line of
             _ # v # _ \<Rightarrow>
               (case py_float e v of
                  Some fps_val \<Rightarrow>
                    (case progress_frame duration out_time_us fps_val of
                       (progress, eta) \<Rightarrow>
                         (update_job jid
                            (\<lambda>j. j\<lparr>job_progress := progress, job_fps := fps_val,
                                    job_eta := eta\<rparr>) st,
                          out_time_us))
                | None \<Rightarrow> (st, out_time_us))
           | _ \<Rightarrow> (st, out_time_us))
        else (st, out_time_us))"

definition read_stdout :: "env \<Rightarrow> conv_ctx \<Rightarrow> string list \<Rightarrow> state \<Rightarrow> state" where
  "read_stdout e cx lines st =
     fst (foldl (\<lambda>acc raw. handle_line e (job_id (cx_job cx)) (cx_duration cx) raw acc)
            (st, 0) lines)"

text \<open>
  From \<open>active_jobs.pop\<close> to the end of the function. \<open>rc\<close> is \<open>process.returncode\<close>,
  \<open>None\<close> when the child was never waited for.
\<close>

definition error_row ::
  "string \<Rightarrow> conv_ctx \<Rightarrow> int \<Rightarrow> string \<Rightarrow> timestamp \<Rightarrow> hist" where
  "error_row hid cx elapsed msg now =
     \<lparr>h_id = hid, h_library_id = job_library_id (cx_job cx), h_file_path = cx_src cx,
      h_original_size = cx_original_size cx, h_new_size = 0, h_duration_seconds = elapsed,
      h_status = H_error, h_error_msg = Some msg, h_finished_at = now\<rparr>"

definition success_row ::
  "string \<Rightarrow> conv_ctx \<Rightarrow> int \<Rightarrow> int \<Rightarrow> timestamp \<Rightarrow> hist" where
  "success_row hid cx new_size elapsed now =
     \<lparr>h_id = hid, h_library_id = job_library_id (cx_job cx), h_file_path = cx_src cx,
      h_original_size = cx_original_size cx, h_new_size = new_size,
      h_duration_seconds = elapsed, h_status = H_success, h_error_msg = None,
      h_finished_at = now\<rparr>"

definition record_error ::
  "env \<Rightarrow> conv_ctx \<Rightarrow> int \<Rightarrow> string \<Rightarrow> timestamp \<Rightarrow> state \<Rightarrow> state" where
  "record_error e cx elapsed msg now st =
     (let (hid, st1) = draw_uuid e st
      in delete_job (job_id (cx_job cx)) (insert_history (error_row hid cx elapsed msg now) st1))"

definition replace_source :: "env \<Rightarrow> conv_ctx \<Rightarrow> state \<Rightarrow> (py_exception \<times> state) + state" where
  "replace_source e cx st =
     (case os_remove e (cx_src cx) st of
        Inl ex \<Rightarrow> Inl (ex, st)
      | Inr st1 \<Rightarrow>
          (case os_rename e (cx_tmp_out cx) (cx_src cx) st1 of
             Inl ex \<Rightarrow> Inl (ex, st1)
           | Inr st2 \<Rightarrow> Inr st2))"

definition finalise ::
  "env \<Rightarrow> conv_ctx \<Rightarrow> int option \<Rightarrow> string \<Rightarrow> int \<Rightarrow> timestamp \<Rightarrow> state \<Rightarrow> state" where
  "finalise e cx rc stderr_out elapsed now st =
     (let st0 = st\<lparr>active_jobs := AList.delete (cx_slot cx) (active_jobs st)\<rparr> in
      case (if rc = Some 0 then files st0 (cx_tmp_out cx) else None) of
        Some content \<Rightarrow>
          let new_size = int (length content) in
          (case replace_source e cx st0 of
             Inl (ex, st1) \<Rightarrow>
               record_error e cx elapsed
                 (''Bestand verplaatsen mislukt: '' @ exception_text ex) now
                 (remove_if_exists e (cx_tmp_out cx) st1)
           | Inr st2 \<Rightarrow>
               let (hid, st3) = draw_uuid e st2
               in delete_job (job_id (cx_job cx))
                    (insert_history (success_row hid cx new_size elapsed now) st3))
      | None \<Rightarrow>
          let error_detail =
                (if strip stderr_out \<noteq> [] then strip (last_chars 1000 stderr_out)
                 else ''ffmpeg returncode: ''
                      @ (case rc of None \<Rightarrow> ''None'' | Some n \<Rightarrow> str_int n))
          in record_error e cx elapsed error_detail now
               (remove_if_exists e (cx_tmp_out cx) st0))"

text \<open>
  The whole function when nothing else touches the job: the child writes its output,
  its lines are read, it is waited for (or killed when reading fails), and the job is
  finalised. \<open>now\<close> and \<open>now'\<close> are the two readings of the clock, \<open>elapsed\<close> the
  seconds between them.
\<close>

definition run_conversion ::
  "env \<Rightarrow> string \<Rightarrow> timestamp \<Rightarrow> int \<Rightarrow> timestamp \<Rightarrow> string \<Rightarrow> state
     \<Rightarrow> state \<times> py_exception option" where
  "run_conversion e slot_id now elapsed now' jid st =
     (case start_conversion e slot_id now jid st of
        Returned st' \<Rightarrow> (st', None)
      | Raised st' ex \<Rightarrow> (st', Some ex)
      | Started st1 cx \<Rightarrow>
          let run = ffmpeg e (cx_cmd cx);
              st2 = (case ff_output run of
                       None \<Rightarrow> st1
                     | Some content \<Rightarrow> proc_writes (cx_tmp_out cx) content st1);
              st3 = read_stdout e cx (ff_stdout run) st2;
              rc = (if ff_read_fails run then None
                    else returncode (proc_exits (cx_pid cx) (ff_returncode run) st3) (cx_pid cx));
              st4 = (if ff_read_fails run then proc_kill (cx_pid cx) st3
                     else proc_exits (cx_pid cx) (ff_returncode run) st3)
          in (finalise e cx rc (ff_stderr run) elapsed now' st4, None))"

subsection \<open>Watcher\<close>

record watcher =
  w_library_id :: string
  w_library_path :: string
  w_pending :: "string \<rightharpoonup> timestamp"

text \<open>
  \<open>LibraryWatcher._handle\<close>: the result says whether a deferred enqueue was started.
\<close>

definition watcher_handle :: "env \<Rightarrow> timestamp \<Rightarrow> string \<Rightarrow> watcher \<Rightarrow> watcher \<times> bool" where
  "watcher_handle e now fpath w =
     (if lower (path_suffix fpath) \<notin> set VIDEO_EXTENSIONS then (w, False)
      else if str_in ''_shrync_'' (path_name fpath) then (w, False)
      else if CACHE_DIR e \<noteq> [] \<and> str_in (CACHE_DIR e) fpath then (w, False)
      else (w\<lparr>w_pending := (w_pending w)(fpath \<mapsto> now)\<rparr>, True))"

text \<open>
  \<open>LibraryWatcher._delayed_queue\<close>. \<open>size1\<close> and \<open>size2\<close> are the two sizes sampled ten
  seconds apart (\<open>None\<close> when the call raised); the state is the one after the second
  sample.
\<close>

definition delayed_queue ::
  "env \<Rightarrow> string \<Rightarrow> int option \<Rightarrow> int option \<Rightarrow> watcher \<Rightarrow> state
     \<Rightarrow> state \<times> watcher \<times> py_exception option" where
  "delayed_queue e fpath size1 size2 w st =
     (if w_pending w fpath = None then (st, w, None)
      else
        let w1 = w\<lparr>w_pending := (w_pending w)(fpath := None)\<rparr> in
        if size1 = None \<or> size2 = None then (st, w1, None)
        else if size1 \<noteq> size2 then (st, w1, None)
        else if select_existing st fpath \<noteq> None \<or> select_done st fpath \<noteq> None
          then (st, w1, None)
        else
          let lib = find (\<lambda>l. lib_id l = w_library_id w) (libraries st);
              global_codec = fst (profile_to_ffmpeg
                                    (get_global_setting st ''conversion_profile'' ''nvenc_max''))
          in
          if lib = None \<or> \<not> needs_conversion e fpath global_codec then (st, w1, None)
          else
            (case getsize st fpath of
               Inl ex \<Rightarrow> (st, w1, Some ex)
             | Inr fsize \<Rightarrow>
                 let (jid, st1) = draw_uuid e st
                 in (insert_job (new_job jid (Some (w_library_id w)) fpath fsize) st1,
                     w1, None)))"

subsection \<open>Startup clean-up\<close>

text \<open>The loop body of \<open>cleanup_stale_conversions\<close> for one stale row.\<close>

definition cleanup_job :: "env \<Rightarrow> job \<Rightarrow> state \<Rightarrow> state" where
  "cleanup_job e job st =
     (let src_name = path_stem (job_file_path job) @ ''_'' @ take 8 (job_id job) @ ''.mkv'';
          tmp_file = os_path_join (CACHE_DIR e) src_name;
          st1 = remove_if_exists e tmp_file st
      in update_job (job_id job)
           (\<lambda>j. j\<lparr>job_status := St_pending, job_progress := 0, job_fps := 0, job_eta := [],
                   job_started_at := None\<rparr>) st1)"

definition cleanup_stale_conversions :: "env \<Rightarrow> state \<Rightarrow> state" where
  "cleanup_stale_conversions e st =
     (let stale_jobs = filter (\<lambda>j. job_status j = St_processing) (queue st)
      in foldl (\<lambda>s job. cleanup_job e job s) st stale_jobs)"

subsection \<open>Queue routes\<close>



text \<open>
  \<open>POST /api/queue/add\<close> with the \<open>file_path\<close> (empty when the body has none) and the
  \<open>library_id\<close> of the body: the new job id or the \<open>HTTPException\<close>, and the state the
  request leaves behind.
\<close>

definition api_add_to_queue ::
  "env \<Rightarrow> string \<Rightarrow> string option \<Rightarrow> state \<Rightarrow> (py_exception + string) \<times> state" where
  "api_add_to_queue e file_path library_id st =
     (if file_path = [] \<or> \<not> exists_file st file_path
        then (Inl (HTTPException 400 ''Bestand niet gevonden''), st)
      else if select_existing st file_path \<noteq> None
        then (Inl (HTTPException 400 ''Al in wachtrij''), st)
      else
        let (jid, st1) = draw_uuid e st in
        (case getsize st1 file_path of
           Inl ex \<Rightarrow> (Inl ex, st1)
         | Inr fsize \<Rightarrow> (Inr jid, insert_job (new_job jid library_id file_path fsize) st1)))"

subsection \<open>A concrete installation\<close>

text \<open>
  One library file \<open>/lib/a/movie.mkv\<close> with a pending job, a cache directory, no GPU, a
  probe that reports H.264 and 128 seconds, and a transcoder that succeeds. Its \<open>float\<close>
  is given for the integer literals only, which is all the examples read.
\<close>

definition demo_env :: env where
  "demo_env = \<lparr>CACHE_DIR = ''/cache'', GPU_MODE = Some ''cpu'',
     uuid4 = (\<lambda>n. ''uuid-'' @ str_nat n),
     ffprobe_streams = (\<lambda>p. Some [(''video'', ''h264'')]),
     ffprobe_duration = (\<lambda>p. Some 128),
     py_float = (\<lambda>s. map_option of_int (py_int s)),
     dir_tree = (\<lambda>p. None), listdir_fails = (\<lambda>p. False),
     remove_error = (\<lambda>p. None), rename_error = (\<lambda>a b. None),
     ffmpeg = (\<lambda>cmd. \<lparr>ff_spawn_error = None,
        ff_stdout = [''out_time_us=64000000'', ''fps=50''], ff_read_fails = False,
        ff_stderr = [], ff_returncode = 0, ff_output = Some ''small''\<rparr>)\<rparr>"

definition demo_job :: job where
  "demo_job = new_job ''0a1b2c3d-0000'' (Some ''lib1'') ''/lib/a/movie.mkv'' 8"

definition demo_library :: library where
  "demo_library = \<lparr>lib_id = ''lib1'', lib_name = ''Films'', lib_path = ''/lib'',
     lib_enabled = True, lib_scan_interval = 3600, lib_last_scan = None\<rparr>"

definition demo_state :: state where
  "demo_state = \<lparr>libraries = [demo_library], queue = [demo_job], history = [], settings = Map.empty,
     files = [''/lib/a/movie.mkv'' \<mapsto> ''original''], active_jobs = [], procs = Map.empty,
     scan_status = Map.empty, uuids_drawn = 0, pids_spawned = 0\<rparr>"

text \<open>The same installation after the job has ended in the queue with status \<open>error\<close>.\<close>

definition demo_error_state :: state where
  "demo_error_state =
     demo_state\<lparr>queue := [demo_job\<lparr>job_status := St_error,
                                    job_error_msg := Some ''Bestand niet gevonden'',
                                    job_finished_at := Some ''t0''\<rparr>]\<rparr>"

definition demo_watcher :: watcher where
  "demo_watcher = \<lparr>w_library_id = ''lib1'', w_library_path = ''/lib'',
     w_pending = [''/lib/a/movie.mkv'' \<mapsto> ''t0'']\<rparr>"

text \<open>
  The installation while \<open>Worker-1\<close> converts the job: the row is \<open>processing\<close>, the
  child is registered and has written part of its output. \<open>demo_ctx\<close> holds the local
  variables of that call.
\<close>

definition demo_ctx :: conv_ctx where
  "demo_ctx =
     \<lparr>cx_job = demo_job, cx_src = ''/lib/a/movie.mkv'',
      cx_tmp_out = ''/cache/movie_shrync_0a1b2c3d.mkv'', cx_duration = 128,
      cx_cmd = [''ffmpeg'', ''-y'', ''-i'', ''/lib/a/movie.mkv'', ''-c:v'', ''libx265'',
                ''-preset'', ''p7'', ''-crf'', ''19'', ''-c:a'', ''copy'', ''-c:s'', ''copy'',
                ''-progress'', ''pipe:1'', ''-nostats'', ''/cache/movie_shrync_0a1b2c3d.mkv''],
      cx_original_size = 8, cx_pid = 0, cx_slot = ''Worker-1''\<rparr>"

definition demo_started_state :: state where
  "demo_started_state =
     demo_state\<lparr>queue := [demo_job\<lparr>job_status := St_processing,
                                    job_started_at := Some ''t0'',
                                    job_original_size := 8\<rparr>],
                pids_spawned := 1, procs := [0 \<mapsto> None],
                active_jobs := [(''Worker-1'', (''0a1b2c3d-0000'', 0))]\<rparr>"

definition demo_running_state :: state where
  "demo_running_state =
     proc_writes ''/cache/movie_shrync_0a1b2c3d.mkv'' ''partial'' demo_started_state"

text \<open>
  What is left of it when the process dies at that point and starts again: the tables
  and the files, with no slot and no child.
\<close>

definition demo_interrupted_state :: state where
  "demo_interrupted_state = demo_running_state\<lparr>active_jobs := [], procs := Map.empty\<rparr>"

text \<open>The same installation with the cache directory on another file system.\<close>

definition demo_env_xdev :: env where
  "demo_env_xdev =
     demo_env\<lparr>rename_error := (\<lambda>a b. Some ''[Errno 18] Invalid cross-device link'')\<rparr>"

text \<open>
  The installation with its library directory readable: one video, one text file and a
  hidden directory; the queue is still empty.
\<close>

definition demo_env_lib :: env where
  "demo_env_lib =
     demo_env\<lparr>dir_tree :=
       (\<lambda>p. if p = ''/lib''
            then Some (Tree [(''a'', Tree [] [''movie.mkv'', ''notes.txt'']),
                             (''.hidden'', Tree [] [''x.mkv''])] [])
            else None)\<rparr>"

definition demo_empty_state :: state where
  "demo_empty_state = demo_state\<lparr>queue := []\<rparr>"

subsection \<open>The progress formulas as the specification words them\<close>



section \<open>Properties\<close>

subsection \<open>Decimal text round trip\<close>













subsection \<open>Worker pool size\<close>


subsection \<open>Codec fallback without a GPU\<close>

lemma nvenc_codecs:
  "list_all (\<lambda>t. str_in ''nvenc'' (fst (snd t)) \<longrightarrow>
       fst (snd t) = ''hevc_nvenc'' \<or> fst (snd t) = ''h264_nvenc'') PROFILES"
  by (simp add: PROFILES_def)

lemma profile_nvenc_cases:
  assumes "profile_to_ffmpeg profile = (video_codec, preset, quality)"
    and "str_in ''nvenc'' video_codec"
  shows "video_codec = ''hevc_nvenc'' \<or> video_codec = ''h264_nvenc''"
proof (cases "map_of PROFILES profile")
  case None
  with assms(1) have "video_codec = ''hevc_nvenc''"
    by (simp add: profile_to_ffmpeg_def)
  then show ?thesis ..
next
  case (Some t)
  then have "(profile, t) \<in> set PROFILES" by (rule map_of_SomeD)
  with nvenc_codecs have "str_in ''nvenc'' (fst t) \<longrightarrow> fst t = ''hevc_nvenc'' \<or> fst t = ''h264_nvenc''"
    unfolding list_all_iff by fastforce
  moreover from Some assms(1) have "fst t = video_codec"
    by (simp add: profile_to_ffmpeg_def)
  ultimately show ?thesis using assms(2) by blast
qed

lemma effective_codec_cpu:
  assumes "gpu_mode e \<noteq> ''nvidia''"
  shows "effective_codec e ''hevc_nvenc'' = ''libx265''"
    and "effective_codec e ''h264_nvenc'' = ''libx264''"
  using assms by (simp_all add: effective_codec_def)

lemma settings_update_job [simp]: "settings (update_job jid f st) = settings st"
  by (simp add: update_job_def)

lemma settings_delete_job [simp]: "settings (delete_job jid st) = settings st"
  by (simp add: delete_job_def)

lemma settings_insert_history [simp]: "settings (insert_history h st) = settings st"
  by (simp add: insert_history_def)

lemma settings_remove_if_exists [simp]: "settings (remove_if_exists e p st) = settings st"
  by (auto simp: remove_if_exists_def os_remove_def split: sum.splits option.splits if_splits)

lemma settings_record_error [simp]: "settings (record_error e cx el msg now st) = settings st"
  by (simp add: record_error_def draw_uuid_def)

lemma settings_proc_exits [simp]: "settings (proc_exits pid rc st) = settings st"
  by (simp add: proc_exits_def split: option.splits)

lemma settings_replace_source:
  "replace_source e cx st = Inr st' \<Longrightarrow> settings st' = settings st"
  "replace_source e cx st = Inl (ex, st') \<Longrightarrow> settings st' = settings st"
  by (auto simp: replace_source_def os_remove_def os_rename_def split: sum.splits option.splits if_splits)

lemma settings_finalise [simp]: "settings (finalise e cx rc err el now st) = settings st"
proof -
  let ?st0 = "st\<lparr>active_jobs := AList.delete (cx_slot cx) (active_jobs st)\<rparr>"
  have s0: "settings ?st0 = settings st" by simp
  show ?thesis
    unfolding finalise_def Let_def
    using settings_replace_source[of e cx ?st0] s0
    by (auto simp: draw_uuid_def split: option.splits sum.splits prod.splits)
qed

lemma settings_handle_line [simp]:
  "settings (fst (handle_line e jid d raw acc)) = settings (fst acc)"
  by (auto simp: handle_line_def Let_def split: prod.splits list.splits option.splits)

lemma settings_read_stdout [simp]: "settings (read_stdout e cx lines st) = settings st"
proof -
  have "settings (fst (foldl (\<lambda>acc raw. handle_line e jid d raw acc) acc lines)) = settings (fst acc)"
    for jid d acc
    by (induction lines arbitrary: acc) simp_all
  then show ?thesis by (simp add: read_stdout_def)
qed

lemma start_conversion_cmd:
  assumes "start_conversion e slot_id now jid st = Started st' cx"
  shows "cx_cmd cx = ffmpeg_cmd e (cx_src cx) (cx_tmp_out cx)
           (profile_to_ffmpeg (get_global_setting st ''conversion_profile'' ''nvenc_max''))
           (get_global_setting st ''audio_codec'' ''copy'')
         \<and> settings st' = settings st"
  using assms
  by (auto simp: start_conversion_def Let_def get_global_setting_def split: option.splits)

lemma settings_start_conversion:
  "settings (case start_conversion e slot_id now jid st of
               Returned s \<Rightarrow> s | Raised s ex \<Rightarrow> s | Started s cx \<Rightarrow> s) = settings st"
  by (auto simp: start_conversion_def Let_def split: option.splits)

lemma settings_run_conversion:
  "settings (fst (run_conversion e slot_id now elapsed now' jid st)) = settings st"
proof (cases "start_conversion e slot_id now jid st")
  case (Returned s)
  with settings_start_conversion[of e slot_id now jid st] show ?thesis
    by (simp add: run_conversion_def)
next
  case (Raised s ex)
  with settings_start_conversion[of e slot_id now jid st] show ?thesis
    by (simp add: run_conversion_def)
next
  case (Started s cx)
  with settings_start_conversion[of e slot_id now jid st] show ?thesis
    by (simp add: run_conversion_def Let_def proc_kill_def proc_writes_def split: option.splits)
qed

text \<open>
  C5 (as amended). When a job is started under a profile whose codec contains \<open>nvenc\<close>
  and the lower-cased \<open>GPU_MODE\<close> (\<open>cpu\<close> when unset) is not \<open>nvidia\<close>, the codec is
  \<open>hevc_nvenc\<close> or \<open>h264_nvenc\<close>, the effective codec is \<open>libx265\<close> or \<open>libx264\<close>
  respectively, the command has the CPU form with \<open>-preset\<close> and \<open>-crf\<close> carrying the
  profile's own preset and quality, and the settings table is the same after the start
  and after the whole conversion.
\<close>

theorem cpu_fallback_command:
  assumes "start_conversion e slot_id now jid st = Started st' cx"
    and "profile_to_ffmpeg (get_global_setting st ''conversion_profile'' ''nvenc_max'')
           = (video_codec, preset, quality)"
    and "str_in ''nvenc'' video_codec"
    and "gpu_mode e \<noteq> ''nvidia''"
  shows "(video_codec = ''hevc_nvenc'' \<and> effective_codec e video_codec = ''libx265''
          \<or> video_codec = ''h264_nvenc'' \<and> effective_codec e video_codec = ''libx264'')
    \<and> cx_cmd cx =
        [''ffmpeg'', ''-y'', ''-i'', cx_src cx, ''-c:v'', effective_codec e video_codec,
         ''-preset'', preset, ''-crf'', quality,
         ''-c:a'', get_global_setting st ''audio_codec'' ''copy'', ''-c:s'', ''copy'',
         ''-progress'', ''pipe:1'', ''-nostats'', cx_tmp_out cx]
    \<and> settings st' = settings st
    \<and> settings (fst (run_conversion e slot_id now elapsed now' jid st)) = settings st"
proof -
  have vc: "video_codec = ''hevc_nvenc'' \<or> video_codec = ''h264_nvenc''"
    using assms(2,3) by (rule profile_nvenc_cases)
  have eff: "video_codec = ''hevc_nvenc'' \<and> effective_codec e video_codec = ''libx265''
          \<or> video_codec = ''h264_nvenc'' \<and> effective_codec e video_codec = ''libx264''"
    using vc effective_codec_cpu[OF assms(4)] by blast
  have "\<not> is_nvenc e video_codec"
    using assms(4) by (simp add: is_nvenc_def)
  then have cmd: "ffmpeg_cmd e (cx_src cx) (cx_tmp_out cx) (video_codec, preset, quality)
           (get_global_setting st ''audio_codec'' ''copy'') =
        [''ffmpeg'', ''-y'', ''-i'', cx_src cx, ''-c:v'', effective_codec e video_codec,
         ''-preset'', preset, ''-crf'', quality,
         ''-c:a'', get_global_setting st ''audio_codec'' ''copy'', ''-c:s'', ''copy'',
         ''-progress'', ''pipe:1'', ''-nostats'', cx_tmp_out cx]"
    by (simp only: ffmpeg_cmd_def prod.case if_False)
  from start_conversion_cmd[OF assms(1)] assms(2) cmd
  have c: "cx_cmd cx =
        [''ffmpeg'', ''-y'', ''-i'', cx_src cx, ''-c:v'', effective_codec e video_codec,
         ''-preset'', preset, ''-crf'', quality,
         ''-c:a'', get_global_setting st ''audio_codec'' ''copy'', ''-c:s'', ''copy'',
         ''-progress'', ''pipe:1'', ''-nostats'', cx_tmp_out cx]"
    and s: "settings st' = settings st" by (simp_all only:)
  from eff c s settings_run_conversion show ?thesis by blast
qed

lemma demo_start:
  "start_conversion demo_env ''Worker-1'' ''t0'' ''0a1b2c3d-0000'' demo_state
   = Started demo_started_state demo_ctx"
  by (simp add: start_conversion_def select_job_def demo_state_def demo_job_def new_job_def
        demo_env_def Let_def tmp_out_path_def path_stem_def path_name_def path_parts_def
        rfind_def os_path_join_def endswith_def get_global_setting_def profile_to_ffmpeg_def
        PROFILES_def ffmpeg_cmd_def is_nvenc_def effective_codec_def gpu_mode_def lower_def
        lower_char_def update_job_def demo_started_state_def demo_ctx_def demo_library_def)

theorem cpu_fallback_command_witness:
  "gpu_mode demo_env \<noteq> ''nvidia''
   \<and> (\<exists>st' cx. start_conversion demo_env ''Worker-1'' ''t0'' ''0a1b2c3d-0000'' demo_state
                 = Started st' cx
        \<and> cx_cmd cx =
           [''ffmpeg'', ''-y'', ''-i'', cx_src cx, ''-c:v'', ''libx265'',
            ''-preset'', ''p7'', ''-crf'', ''19'', ''-c:a'', ''copy'', ''-c:s'', ''copy'',
            ''-progress'', ''pipe:1'', ''-nostats'', cx_tmp_out cx])"
proof -
  have g: "gpu_mode demo_env \<noteq> ''nvidia''"
    by (simp add: gpu_mode_def demo_env_def lower_def lower_char_def)
  have p: "profile_to_ffmpeg (get_global_setting demo_state ''conversion_profile'' ''nvenc_max'')
           = (''hevc_nvenc'', ''p7'', ''19'')"
    by (simp add: profile_to_ffmpeg_def get_global_setting_def demo_state_def PROFILES_def)
  have a: "get_global_setting demo_state ''audio_codec'' ''copy'' = ''copy''"
    by (simp add: get_global_setting_def demo_state_def)
  have n: "str_in ''nvenc'' ''hevc_nvenc''" by simp
  obtain st' cx where s:
    "start_conversion demo_env ''Worker-1'' ''t0'' ''0a1b2c3d-0000'' demo_state = Started st' cx"
    using demo_start by blast
  have e: "effective_codec demo_env ''hevc_nvenc'' = ''libx265''"
    using g by (rule effective_codec_cpu)
  from cpu_fallback_command[OF s p n g] have "cx_cmd cx =
           [''ffmpeg'', ''-y'', ''-i'', cx_src cx, ''-c:v'', ''libx265'',
            ''-preset'', ''p7'', ''-crf'', ''19'', ''-c:a'', ''copy'', ''-c:s'', ''copy'',
            ''-progress'', ''pipe:1'', ''-nostats'', cx_tmp_out cx]"
    by (simp only: e a)
  with g s show ?thesis by blast
qed

text \<open>
  C5 as stated fails for a \<open>GPU_MODE\<close> that differs from \<open>nvidia\<close> only in case: the
  variable is lower-cased before the comparison, so \<open>NVIDIA\<close> keeps the NVENC codec and
  the constant-QP command.
\<close>

theorem cpu_fallback_counterexample:
  "GPU_MODE (demo_env\<lparr>GPU_MODE := Some ''NVIDIA''\<rparr>) \<noteq> Some ''nvidia''
   \<and> effective_codec (demo_env\<lparr>GPU_MODE := Some ''NVIDIA''\<rparr>) ''hevc_nvenc'' = ''hevc_nvenc''
   \<and> effective_codec (demo_env\<lparr>GPU_MODE := Some ''NVIDIA''\<rparr>) ''hevc_nvenc'' \<noteq> ''libx265''
   \<and> ffmpeg_cmd (demo_env\<lparr>GPU_MODE := Some ''NVIDIA''\<rparr>) ''/lib/a/movie.mkv''
        ''/cache/movie_shrync_0a1b2c3d.mkv'' (profile_to_ffmpeg ''nvenc_max'') ''copy''
      = [''ffmpeg'', ''-y'', ''-i'', ''/lib/a/movie.mkv'', ''-c:v'', ''hevc_nvenc'',
         ''-preset'', ''p7'', ''-rc'', ''constqp'', ''-qp'', ''19'', ''-b:v'', ''0'',
         ''-c:a'', ''copy'', ''-c:s'', ''copy'', ''-progress'', ''pipe:1'', ''-nostats'',
         ''/cache/movie_shrync_0a1b2c3d.mkv'']"
  by (simp add: effective_codec_def ffmpeg_cmd_def is_nvenc_def gpu_mode_def demo_env_def
      lower_def lower_char_def profile_to_ffmpeg_def PROFILES_def)

subsection \<open>A source that has disappeared\<close>

lemma find_map_update:
  assumes "find P xs = Some x" and "\<And>y. P y \<Longrightarrow> P (f y)"
  shows "find P (map (\<lambda>y. if P y then f y else y) xs) = Some (f x)"
  using assms by (induction xs) (auto split: if_splits)

lemma select_job_update_job:
  assumes "select_job st jid = Some job" and "\<And>j. job_id (f j) = job_id j"
  shows "select_job (update_job jid f st) jid = Some (f job)"
  using find_map_update[of "\<lambda>j. job_id j = jid" "queue st" job f] assms
  by (simp add: select_job_def update_job_def)

lemma history_update_job [simp]: "history (update_job jid f st) = history st"
  by (simp add: update_job_def)

text \<open>
  C3 (as amended). When the source of a queued job no longer exists as \<open>run_conversion\<close>
  loads it, the function returns after one update: the queue row stays, with status
  \<open>error\<close>, the message \<open>Bestand niet gevonden\<close> and \<open>finished_at\<close> set; the history
  table is unchanged.
\<close>

theorem missing_source_marks_error:
  assumes "select_job st jid = Some job" and "files st (job_file_path job) = None"
  shows "run_conversion e slot_id now elapsed now' jid st
           = (update_job jid
                (\<lambda>j. j\<lparr>job_status := St_error,
                        job_error_msg := Some ''Bestand niet gevonden'',
                        job_finished_at := Some now\<rparr>) st, None)
    \<and> history (fst (run_conversion e slot_id now elapsed now' jid st)) = history st
    \<and> select_job (fst (run_conversion e slot_id now elapsed now' jid st)) jid
        = Some (job\<lparr>job_status := St_error,
                    job_error_msg := Some ''Bestand niet gevonden'',
                    job_finished_at := Some now\<rparr>)"
proof -
  let ?f = "\<lambda>j. j\<lparr>job_status := St_error, job_error_msg := Some ''Bestand niet gevonden'',
                   job_finished_at := Some now\<rparr>"
  have r: "run_conversion e slot_id now elapsed now' jid st = (update_job jid ?f st, None)"
    using assms by (simp add: run_conversion_def start_conversion_def)
  have s: "select_job (update_job jid ?f st) jid = Some (?f job)"
    using assms(1) by (rule select_job_update_job) simp
  from r s show ?thesis by simp
qed

lemma demo_missing_run:
  "run_conversion demo_env ''Worker-1'' ''t0'' 5 ''t1'' ''0a1b2c3d-0000''
     (demo_state\<lparr>files := Map.empty\<rparr>)
   = (demo_state\<lparr>files := Map.empty,
        queue := [demo_job\<lparr>job_status := St_error,
                    job_error_msg := Some ''Bestand niet gevonden'',
                    job_finished_at := Some ''t0''\<rparr>]\<rparr>, None)"
  by (simp add: run_conversion_def start_conversion_def select_job_def demo_state_def
      demo_job_def new_job_def update_job_def)

text \<open>
  C3 as stated fails: for the job of the concrete installation with its file gone, no
  history row is written and the row is still in the queue.
\<close>

theorem missing_source_counterexample:
  "history (fst (run_conversion demo_env ''Worker-1'' ''t0'' 5 ''t1'' ''0a1b2c3d-0000''
              (demo_state\<lparr>files := Map.empty\<rparr>))) = []
   \<and> map job_id (queue (fst (run_conversion demo_env ''Worker-1'' ''t0'' 5 ''t1''
              ''0a1b2c3d-0000'' (demo_state\<lparr>files := Map.empty\<rparr>)))) = [''0a1b2c3d-0000'']
   \<and> map job_status (queue (fst (run_conversion demo_env ''Worker-1'' ''t0'' 5 ''t1''
              ''0a1b2c3d-0000'' (demo_state\<lparr>files := Map.empty\<rparr>)))) = [St_error]"
  by (simp add: demo_missing_run) (simp add: demo_state_def demo_job_def new_job_def)

theorem missing_source_marks_error_witness:
  "select_job (demo_state\<lparr>files := Map.empty\<rparr>) ''0a1b2c3d-0000'' = Some demo_job
   \<and> files (demo_state\<lparr>files := Map.empty\<rparr>) (job_file_path demo_job) = None
   \<and> history (fst (run_conversion demo_env ''Worker-1'' ''t0'' 5 ''t1'' ''0a1b2c3d-0000''
                (demo_state\<lparr>files := Map.empty\<rparr>))) = []
   \<and> select_job (fst (run_conversion demo_env ''Worker-1'' ''t0'' 5 ''t1'' ''0a1b2c3d-0000''
                (demo_state\<lparr>files := Map.empty\<rparr>))) ''0a1b2c3d-0000''
       = Some (demo_job\<lparr>job_status := St_error,
                    job_error_msg := Some ''Bestand niet gevonden'',
                    job_finished_at := Some ''t0''\<rparr>)"
proof -
  have a: "select_job (demo_state\<lparr>files := Map.empty\<rparr>) ''0a1b2c3d-0000'' = Some demo_job"
    by (simp add: select_job_def demo_state_def demo_job_def new_job_def)
  have b: "files (demo_state\<lparr>files := Map.empty\<rparr>) (job_file_path demo_job) = None"
    by simp
  have h: "history (demo_state\<lparr>files := Map.empty\<rparr>) = []"
    by (simp add: demo_state_def)
  note t = missing_source_marks_error[OF a b, of demo_env "''Worker-1''" "''t0''" 5 "''t1''"]
  have hh: "history (fst (run_conversion demo_env ''Worker-1'' ''t0'' 5 ''t1''
      ''0a1b2c3d-0000'' (demo_state\<lparr>files := Map.empty\<rparr>))) = []"
    using t[THEN conjunct2, THEN conjunct1] h by (rule trans)
  from a b hh t[THEN conjunct2, THEN conjunct2] show ?thesis by (intro conjI)
qed

subsection \<open>Enqueueing through the API\<close>

lemma select_existing_insert:
  "select_existing (insert_job (new_job jid lib p n) st) p \<noteq> None"
proof -
  have "new_job jid lib p n \<in> set (queue (insert_job (new_job jid lib p n) st))"
    by (simp add: insert_job_def)
  moreover have "job_file_path (new_job jid lib p n) = p \<and> job_status (new_job jid lib p n) = St_pending"
    by (simp add: new_job_def)
  ultimately show ?thesis
    unfolding select_existing_def find_None_iff by blast
qed

lemma exists_file_draw_insert:
  "exists_file (insert_job j (snd (draw_uuid e st))) p = exists_file st p"
  by (simp add: exists_file_def insert_job_def draw_uuid_def)

text \<open>
  C8. \<open>POST /api/queue/add\<close> for a path with a \<open>pending\<close> or \<open>processing\<close> row ends in
  an \<open>HTTPException\<close> with status 400 and leaves the state as it was. For an existing
  file without such a row the call returns the new job id and appends one \<open>pending\<close>
  row, and a second call for the same path ends in 400 \<open>Al in wachtrij\<close> without
  changing the state again.
\<close>

theorem api_add_duplicate_rejected:
  "(select_existing st p \<noteq> None \<longrightarrow>
      (\<exists>detail. api_add_to_queue e p lib st = (Inl (HTTPException 400 detail), st)))
   \<and> (p \<noteq> [] \<and> files st p = Some content \<and> select_existing st p = None \<longrightarrow>
      (\<exists>st'. api_add_to_queue e p lib st = (Inr (uuid4 e (uuids_drawn st)), st')
         \<and> queue st' = queue st
              @ [new_job (uuid4 e (uuids_drawn st)) lib p (int (length content))]
         \<and> api_add_to_queue e p lib' st' = (Inl (HTTPException 400 ''Al in wachtrij''), st')))"
proof (intro conjI impI)
  assume "select_existing st p \<noteq> None"
  then show "\<exists>detail. api_add_to_queue e p lib st = (Inl (HTTPException 400 detail), st)"
    by (simp add: api_add_to_queue_def)
next
  assume a: "p \<noteq> [] \<and> files st p = Some content \<and> select_existing st p = None"
  let ?jid = "uuid4 e (uuids_drawn st)"
  let ?st' = "insert_job (new_job ?jid lib p (int (length content))) (snd (draw_uuid e st))"
  have 1: "api_add_to_queue e p lib st = (Inr ?jid, ?st')"
    using a by (simp add: api_add_to_queue_def exists_file_def draw_uuid_def getsize_def)
  have 2: "queue ?st' = queue st @ [new_job ?jid lib p (int (length content))]"
    by (simp add: insert_job_def draw_uuid_def)
  have "exists_file ?st' p"
    using a by (simp add: exists_file_draw_insert) (simp add: exists_file_def)
  then have 3: "api_add_to_queue e p lib' ?st' = (Inl (HTTPException 400 ''Al in wachtrij''), ?st')"
    using a select_existing_insert[of ?jid lib p "int (length content)" "snd (draw_uuid e st)"]
    by (simp add: api_add_to_queue_def)
  from 1 2 3 show "\<exists>st'. api_add_to_queue e p lib st = (Inr ?jid, st')
         \<and> queue st' = queue st @ [new_job ?jid lib p (int (length content))]
         \<and> api_add_to_queue e p lib' st' = (Inl (HTTPException 400 ''Al in wachtrij''), st')"
    by blast
qed

theorem api_add_duplicate_rejected_witness:
  "files (demo_state\<lparr>queue := []\<rparr>) ''/lib/a/movie.mkv'' = Some ''original''
   \<and> select_existing (demo_state\<lparr>queue := []\<rparr>) ''/lib/a/movie.mkv'' = None
   \<and> (\<exists>st'. api_add_to_queue demo_env ''/lib/a/movie.mkv'' None (demo_state\<lparr>queue := []\<rparr>)
               = (Inr (uuid4 demo_env 0), st')
          \<and> select_existing st' ''/lib/a/movie.mkv'' \<noteq> None
          \<and> api_add_to_queue demo_env ''/lib/a/movie.mkv'' None st'
               = (Inl (HTTPException 400 ''Al in wachtrij''), st'))"
proof -
  let ?s = "demo_state\<lparr>queue := []\<rparr>"
  have a: "''/lib/a/movie.mkv'' \<noteq> []" by simp
  have b: "files ?s ''/lib/a/movie.mkv'' = Some ''original''"
    by (simp add: demo_state_def)
  have c: "select_existing ?s ''/lib/a/movie.mkv'' = None"
    by (simp add: select_existing_def)
  have u: "uuids_drawn ?s = 0" by (simp add: demo_state_def)
  from api_add_duplicate_rejected[of ?s "''/lib/a/movie.mkv''" demo_env None "''original''" None]
    a b c u
  obtain st' where
    1: "api_add_to_queue demo_env ''/lib/a/movie.mkv'' None ?s = (Inr (uuid4 demo_env 0), st')"
    and 2: "api_add_to_queue demo_env ''/lib/a/movie.mkv'' None st'
               = (Inl (HTTPException 400 ''Al in wachtrij''), st')"
    by auto
  from 2 have "select_existing st' ''/lib/a/movie.mkv'' \<noteq> None"
    by (auto simp: api_add_to_queue_def Let_def getsize_def
        split: if_splits prod.splits sum.splits option.splits)
  with 1 2 b c show ?thesis by blast
qed

subsection \<open>Rows with status error and the duplicate checks\<close>

lemma set_scan_fields [simp]:
  "queue (set_scan l f st) = queue st"
  "history (set_scan l f st) = history st"
  "files (set_scan l f st) = files st"
  "settings (set_scan l f st) = settings st"
  "uuids_drawn (set_scan l f st) = uuids_drawn st"
  "libraries (set_scan l f st) = libraries st"
  by (simp_all add: set_scan_def split: option.splits)

lemma set_scan_queries [simp]:
  "select_existing (set_scan l f st) p = select_existing st p"
  "select_done (set_scan l f st) p = select_done st p"
  "getsize (set_scan l f st) p = getsize st p"
  "get_global_setting (set_scan l f st) k d = get_global_setting st k d"
  by (simp_all add: select_existing_def select_done_def getsize_def get_global_setting_def)

lemma select_existing_None_iff:
  "select_existing st p = None \<longleftrightarrow>
     (\<forall>j \<in> set (queue st). job_file_path j = p \<longrightarrow>
        job_status j \<noteq> St_pending \<and> job_status j \<noteq> St_processing)"
  by (auto simp: select_existing_def find_None_iff)

lemma error_rows_not_existing:
  assumes "\<forall>j \<in> set (queue st). job_file_path j = p \<longrightarrow> job_status j = St_error"
  shows "select_existing st p = None"
  unfolding select_existing_None_iff using assms by auto

text \<open>
  C10. The duplicate query looks only at rows that are \<open>pending\<close> or \<open>processing\<close>. So
  for a path whose queue rows all have status \<open>error\<close> and whose file exists, the query
  finds nothing, and each of the three producers inserts a new \<open>pending\<close> row for the
  path when its other checks pass: the API route (non-empty path), the watcher's
  deferred enqueue (path pending in the watcher, two equal size samples, no successful
  history row, a known library, a codec that needs conversion) and the scanner's loop
  body (video extension, no temp marker, not under the cache directory, no successful
  history row, a codec that needs conversion).
\<close>

theorem error_row_does_not_block:
  assumes "\<forall>j \<in> set (queue st). job_file_path j = p \<longrightarrow> job_status j = St_error"
    and "files st p = Some content"
  shows "select_existing st p = None
    \<and> job_status (new_job jid lib p (int (length content))) = St_pending
    \<and> (p \<noteq> [] \<longrightarrow>
          api_add_to_queue e p lib st
            = (Inr (uuid4 e (uuids_drawn st)),
               insert_job (new_job (uuid4 e (uuids_drawn st)) lib p (int (length content)))
                 (snd (draw_uuid e st))))
    \<and> (w_pending w p \<noteq> None \<and> size1 \<noteq> None \<and> size1 = size2 \<and> select_done st p = None
          \<and> find (\<lambda>l. lib_id l = w_library_id w) (libraries st) \<noteq> None
          \<and> needs_conversion e p
               (fst (profile_to_ffmpeg
                       (get_global_setting st ''conversion_profile'' ''nvenc_max''))) \<longrightarrow>
          fst (delayed_queue e p size1 size2 w st)
            = insert_job (new_job (uuid4 e (uuids_drawn st)) (Some (w_library_id w)) p
                            (int (length content)))
                (snd (draw_uuid e st)))
    \<and> (os_path_join dirpath fname = p
          \<and> lower (path_suffix fname) \<in> set VIDEO_EXTENSIONS
          \<and> \<not> str_in ''_shrync_'' fname
          \<and> \<not> (CACHE_DIR e \<noteq> [] \<and> str_in (CACHE_DIR e) p)
          \<and> select_done st p = None
          \<and> needs_conversion e p
               (fst (profile_to_ffmpeg
                       (get_global_setting st ''conversion_profile'' ''nvenc_max''))) \<longrightarrow>
          queue (fst (scan_file e library_id dirpath fname st c))
            = queue st @ [new_job (uuid4 e (uuids_drawn st)) (Some library_id) p
                            (int (length content))]
          \<and> c_added (fst (snd (scan_file e library_id dirpath fname st c))) = c_added c + 1)"
proof -
  have ex: "select_existing st p = None"
    using assms(1) by (rule error_rows_not_existing)
  have pend: "job_status (new_job jid lib p (int (length content))) = St_pending"
    by (simp add: new_job_def)
  have api: "p \<noteq> [] \<longrightarrow>
          api_add_to_queue e p lib st
            = (Inr (uuid4 e (uuids_drawn st)),
               insert_job (new_job (uuid4 e (uuids_drawn st)) lib p (int (length content)))
                 (snd (draw_uuid e st)))"
    using ex assms(2)
    by (simp add: api_add_to_queue_def exists_file_def draw_uuid_def getsize_def)
  have watch: "w_pending w p \<noteq> None \<and> size1 \<noteq> None \<and> size1 = size2 \<and> select_done st p = None
          \<and> find (\<lambda>l. lib_id l = w_library_id w) (libraries st) \<noteq> None
          \<and> needs_conversion e p
               (fst (profile_to_ffmpeg
                       (get_global_setting st ''conversion_profile'' ''nvenc_max''))) \<longrightarrow>
          fst (delayed_queue e p size1 size2 w st)
            = insert_job (new_job (uuid4 e (uuids_drawn st)) (Some (w_library_id w)) p
                            (int (length content)))
                (snd (draw_uuid e st))"
    using ex assms(2)
    by (auto simp: delayed_queue_def Let_def draw_uuid_def getsize_def)
  have scan: "os_path_join dirpath fname = p
          \<and> lower (path_suffix fname) \<in> set VIDEO_EXTENSIONS
          \<and> \<not> str_in ''_shrync_'' fname
          \<and> \<not> (CACHE_DIR e \<noteq> [] \<and> str_in (CACHE_DIR e) p)
          \<and> select_done st p = None
          \<and> needs_conversion e p
               (fst (profile_to_ffmpeg
                       (get_global_setting st ''conversion_profile'' ''nvenc_max''))) \<longrightarrow>
          queue (fst (scan_file e library_id dirpath fname st c))
            = queue st @ [new_job (uuid4 e (uuids_drawn st)) (Some library_id) p
                            (int (length content))]
          \<and> c_added (fst (snd (scan_file e library_id dirpath fname st c))) = c_added c + 1"
    using ex assms(2)
    by (auto simp: scan_file_def Let_def draw_uuid_def getsize_def insert_job_def)
  from ex pend api watch scan show ?thesis by (intro conjI)
qed


theorem error_row_does_not_block_witness:
  "map job_status (queue demo_error_state) = [St_error]
   \<and> files demo_error_state ''/lib/a/movie.mkv'' = Some ''original''
   \<and> select_existing demo_error_state ''/lib/a/movie.mkv'' = None
   \<and> fst (api_add_to_queue demo_env ''/lib/a/movie.mkv'' None demo_error_state)
       = Inr (uuid4 demo_env 0)
   \<and> map job_status (queue (snd (api_add_to_queue demo_env ''/lib/a/movie.mkv'' None
                                    demo_error_state))) = [St_error, St_pending]
   \<and> map job_status (queue (fst (delayed_queue demo_env ''/lib/a/movie.mkv'' (Some 8) (Some 8)
                                    demo_watcher demo_error_state))) = [St_error, St_pending]
   \<and> map job_status (queue (fst (scan_file demo_env ''lib1'' ''/lib/a'' ''movie.mkv''
                                    demo_error_state
                                    \<lparr>c_scanned = 0, c_added = 0, c_skipped = 0,
                                     c_already_converted = 0\<rparr>))) = [St_error, St_pending]"
proof -
  let ?p = "''/lib/a/movie.mkv''"
  have q: "map job_status (queue demo_error_state) = [St_error]"
    by (simp add: demo_error_state_def)
  have h1: "\<forall>j \<in> set (queue demo_error_state). job_file_path j = ?p \<longrightarrow> job_status j = St_error"
    by (simp add: demo_error_state_def)
  have h2: "files demo_error_state ?p = Some ''original''"
    by (simp add: demo_error_state_def demo_state_def)
  have u: "uuids_drawn demo_error_state = 0"
    by (simp add: demo_error_state_def demo_state_def)
  have ne: "?p \<noteq> []" by simp
  have d: "select_done demo_error_state ?p = None"
    by (simp add: select_done_def demo_error_state_def demo_state_def)
  have nc: "needs_conversion demo_env ?p
      (fst (profile_to_ffmpeg (get_global_setting demo_error_state ''conversion_profile''
         ''nvenc_max'')))"
    by (simp add: needs_conversion_def demo_env_def get_global_setting_def demo_error_state_def
        demo_state_def profile_to_ffmpeg_def PROFILES_def)
  have wp: "w_pending demo_watcher ?p \<noteq> None"
    by (simp add: demo_watcher_def)
  have lb: "find (\<lambda>l. lib_id l = w_library_id demo_watcher) (libraries demo_error_state) \<noteq> None"
    by (simp add: demo_watcher_def demo_error_state_def demo_state_def demo_library_def)
  have jn: "os_path_join ''/lib/a'' ''movie.mkv'' = ?p"
    by (simp add: os_path_join_def endswith_def)
  have sx: "lower (path_suffix ''movie.mkv'') \<in> set VIDEO_EXTENSIONS"
    by (simp add: path_suffix_def path_name_def path_parts_def rfind_def lower_def
        lower_char_def VIDEO_EXTENSIONS_def)
  have mk: "\<not> str_in ''_shrync_'' ''movie.mkv''" by simp
  have ch: "\<not> (CACHE_DIR demo_env \<noteq> [] \<and> str_in (CACHE_DIR demo_env) ?p)"
    by (simp add: demo_env_def)
  note t = error_row_does_not_block[OF h1 h2, of "uuid4 demo_env 0" None demo_env demo_watcher
      "Some 8" "Some 8" "''/lib/a''" "''movie.mkv''" "''lib1''"
      "\<lparr>c_scanned = 0, c_added = 0, c_skipped = 0, c_already_converted = 0\<rparr>"]
  have ex: "select_existing demo_error_state ?p = None"
    using t by (rule conjunct1)
  have api: "api_add_to_queue demo_env ?p None demo_error_state
      = (Inr (uuid4 demo_env 0),
         insert_job (new_job (uuid4 demo_env 0) None ?p (int (length ''original'')))
           (snd (draw_uuid demo_env demo_error_state)))"
    using t[THEN conjunct2, THEN conjunct2, THEN conjunct1, THEN mp, OF ne]
    unfolding u .
  have wq: "fst (delayed_queue demo_env ?p (Some 8) (Some 8) demo_watcher demo_error_state)
      = insert_job (new_job (uuid4 demo_env 0) (Some (w_library_id demo_watcher)) ?p
          (int (length ''original''))) (snd (draw_uuid demo_env demo_error_state))"
    using t[THEN conjunct2, THEN conjunct2, THEN conjunct2, THEN conjunct1, THEN mp]
      wp d lb nc unfolding u by blast
  have sq: "queue (fst (scan_file demo_env ''lib1'' ''/lib/a'' ''movie.mkv'' demo_error_state
        \<lparr>c_scanned = 0, c_added = 0, c_skipped = 0, c_already_converted = 0\<rparr>))
      = queue demo_error_state @ [new_job (uuid4 demo_env 0) (Some ''lib1'') ?p
           (int (length ''original''))]"
    using t[THEN conjunct2, THEN conjunct2, THEN conjunct2, THEN conjunct2, THEN mp]
      jn sx mk ch d nc unfolding u by blast
  have qi: "map job_status (queue (insert_job (new_job a b c n)
       (snd (draw_uuid demo_env demo_error_state)))) = [St_error, St_pending]" for a b c n
    by (simp add: insert_job_def draw_uuid_def new_job_def demo_error_state_def)
  have qs: "map job_status (queue demo_error_state @ [new_job a b c n]) = [St_error, St_pending]"
    for a b c n
    by (simp add: new_job_def demo_error_state_def)
  show ?thesis
    using q h2 ex by (simp only: api wq sq qi qs fst_conv snd_conv)
qed

subsection \<open>Progress frames\<close>








lemma str_int_small:
  "str_int 0 = ''0''" "str_int (- 1) = ''-1''" "str_int 59 = ''59''"
  "str_int 32 = ''32''" "str_int 1 = ''1''" "str_int 4 = ''4''"
  by (simp_all add: str_int_def str_nat.simps digit_char_def)








subsection \<open>Startup recovery\<close>

text \<open>
  C2, evaluated where it fails. The interrupted installation has one \<open>processing\<close> row
  and the partial output of its conversion at the path \<open>run_conversion\<close> computes.
  \<open>cleanup_stale_conversions\<close> resets the row to \<open>pending\<close>, but it looks for the file
  under a name without the \<open>_shrync_\<close> marker, so the partial output is still there.
\<close>

theorem cleanup_leaves_temp_file:
  "tmp_out_path demo_env ''/lib/a/movie.mkv'' ''0a1b2c3d-0000''
     = ''/cache/movie_shrync_0a1b2c3d.mkv''
   \<and> map job_status (queue demo_interrupted_state) = [St_processing]
   \<and> files demo_interrupted_state ''/cache/movie_shrync_0a1b2c3d.mkv'' = Some ''partial''
   \<and> map job_status (queue (cleanup_stale_conversions demo_env demo_interrupted_state))
       = [St_pending]
   \<and> files (cleanup_stale_conversions demo_env demo_interrupted_state)
        ''/cache/movie_shrync_0a1b2c3d.mkv'' = Some ''partial''"
proof (intro conjI)
  show "tmp_out_path demo_env ''/lib/a/movie.mkv'' ''0a1b2c3d-0000''
     = ''/cache/movie_shrync_0a1b2c3d.mkv''"
    by code_simp
  show "map job_status (queue demo_interrupted_state) = [St_processing]"
    by code_simp
  show "files demo_interrupted_state ''/cache/movie_shrync_0a1b2c3d.mkv'' = Some ''partial''"
    by code_simp
  show "map job_status (queue (cleanup_stale_conversions demo_env demo_interrupted_state))
       = [St_pending]"
    by code_simp
  show "files (cleanup_stale_conversions demo_env demo_interrupted_state)
        ''/cache/movie_shrync_0a1b2c3d.mkv'' = Some ''partial''"
    by code_simp
qed

subsection \<open>Finalisation when the replacement fails\<close>

text \<open>
  C1, evaluated where it fails. With the cache directory on another file system the
  conversion of the demo job succeeds, \<open>os.remove\<close> deletes the source, \<open>os.rename\<close>
  fails, and the handler deletes the temporary file: afterwards neither path holds a
  file, while the history has one \<open>error\<close> row and the queue row is gone.
\<close>

theorem replace_failure_loses_source:
  "files demo_state ''/lib/a/movie.mkv'' = Some ''original''
   \<and> snd (run_conversion demo_env_xdev ''Worker-1'' ''t0'' 5 ''t1'' ''0a1b2c3d-0000'' demo_state)
       = None
   \<and> files (fst (run_conversion demo_env_xdev ''Worker-1'' ''t0'' 5 ''t1'' ''0a1b2c3d-0000''
                   demo_state)) ''/lib/a/movie.mkv'' = None
   \<and> files (fst (run_conversion demo_env_xdev ''Worker-1'' ''t0'' 5 ''t1'' ''0a1b2c3d-0000''
                   demo_state)) ''/cache/movie_shrync_0a1b2c3d.mkv'' = None
   \<and> map h_status (history (fst (run_conversion demo_env_xdev ''Worker-1'' ''t0'' 5 ''t1''
                   ''0a1b2c3d-0000'' demo_state))) = [H_error]
   \<and> map h_error_msg (history (fst (run_conversion demo_env_xdev ''Worker-1'' ''t0'' 5 ''t1''
                   ''0a1b2c3d-0000'' demo_state)))
       = [Some ''Bestand verplaatsen mislukt: [Errno 18] Invalid cross-device link'']
   \<and> queue (fst (run_conversion demo_env_xdev ''Worker-1'' ''t0'' 5 ''t1'' ''0a1b2c3d-0000''
                   demo_state)) = []"
proof (intro conjI)
  show "files demo_state ''/lib/a/movie.mkv'' = Some ''original''"
    by code_simp
  show "snd (run_conversion demo_env_xdev ''Worker-1'' ''t0'' 5 ''t1'' ''0a1b2c3d-0000''
      demo_state) = None"
    by code_simp
  show "files (fst (run_conversion demo_env_xdev ''Worker-1'' ''t0'' 5 ''t1'' ''0a1b2c3d-0000''
                   demo_state)) ''/lib/a/movie.mkv'' = None"
    by code_simp
  show "files (fst (run_conversion demo_env_xdev ''Worker-1'' ''t0'' 5 ''t1'' ''0a1b2c3d-0000''
                   demo_state)) ''/cache/movie_shrync_0a1b2c3d.mkv'' = None"
    by code_simp
  show "map h_status (history (fst (run_conversion demo_env_xdev ''Worker-1'' ''t0'' 5 ''t1''
                   ''0a1b2c3d-0000'' demo_state))) = [H_error]"
    by code_simp
  show "map h_error_msg (history (fst (run_conversion demo_env_xdev ''Worker-1'' ''t0'' 5 ''t1''
                   ''0a1b2c3d-0000'' demo_state)))
       = [Some ''Bestand verplaatsen mislukt: [Errno 18] Invalid cross-device link'']"
    by code_simp
  show "queue (fst (run_conversion demo_env_xdev ''Worker-1'' ''t0'' 5 ''t1'' ''0a1b2c3d-0000''
                   demo_state)) = []"
    by code_simp
qed

subsection \<open>Deleting a job that is being converted\<close>





lemma select_job_delete [simp]: "select_job (delete_job jid st) jid = None"
  by (simp add: select_job_def delete_job_def find_None_iff)



lemma remove_if_exists_fields [simp]:
  "history (remove_if_exists e p st) = history st"
  "uuids_drawn (remove_if_exists e p st) = uuids_drawn st"
  "queue (remove_if_exists e p st) = queue st"
  by (auto simp: remove_if_exists_def os_remove_def split: option.splits sum.splits)







subsection \<open>Scanning twice\<close>

lemma select_existing_cong:
  "queue st = queue st' \<Longrightarrow> select_existing st p = select_existing st' p"
  by (simp add: select_existing_def)

lemma select_done_cong:
  "history st = history st' \<Longrightarrow> select_done st p = select_done st' p"
  by (simp add: select_done_def)

lemma getsize_cong: "files st = files st' \<Longrightarrow> getsize st p = getsize st' p"
  by (simp add: getsize_def)

lemma get_global_setting_cong:
  "settings st = settings st' \<Longrightarrow> get_global_setting st k d = get_global_setting st' k d"
  by (simp add: get_global_setting_def)

lemma select_existing_append:
  "select_existing st p \<noteq> None \<Longrightarrow> queue st' = queue st @ js \<Longrightarrow> select_existing st' p \<noteq> None"
  by (auto simp: select_existing_def find_None_iff)

lemma scan_file_ignored:
  assumes "lower (path_suffix f) \<notin> set VIDEO_EXTENSIONS \<or> str_in ''_shrync_'' f
      \<or> (CACHE_DIR e \<noteq> [] \<and> str_in (CACHE_DIR e) (os_path_join d f))"
  shows "scan_file e lid d f st c = (st, c, None)"
  using assms by (auto simp: scan_file_def Let_def)

lemma scan_file_skipped:
  assumes "\<not> (lower (path_suffix f) \<notin> set VIDEO_EXTENSIONS \<or> str_in ''_shrync_'' f
      \<or> (CACHE_DIR e \<noteq> [] \<and> str_in (CACHE_DIR e) (os_path_join d f)))"
    and "select_existing st (os_path_join d f) \<noteq> None \<or> select_done st (os_path_join d f) \<noteq> None"
  shows "\<exists>S C. scan_file e lid d f st c = (S, C, None) \<and> queue S = queue st
    \<and> history S = history st \<and> files S = files st \<and> settings S = settings st
    \<and> c_added C = c_added c \<and> c_skipped C = c_skipped c + 1"
proof (cases "select_existing st (os_path_join d f) \<noteq> None")
  case True
  with assms(1) show ?thesis by (simp add: scan_file_def Let_def)
next
  case False
  with assms show ?thesis by (simp add: scan_file_def Let_def)
qed

lemma scan_file_converted:
  assumes "\<not> (lower (path_suffix f) \<notin> set VIDEO_EXTENSIONS \<or> str_in ''_shrync_'' f
      \<or> (CACHE_DIR e \<noteq> [] \<and> str_in (CACHE_DIR e) (os_path_join d f)))"
    and "select_existing st (os_path_join d f) = None" and "select_done st (os_path_join d f) = None"
    and "\<not> needs_conversion e (os_path_join d f)
           (fst (profile_to_ffmpeg (get_global_setting st ''conversion_profile'' ''nvenc_max'')))"
  shows "\<exists>S C. scan_file e lid d f st c = (S, C, None) \<and> queue S = queue st
    \<and> history S = history st \<and> files S = files st \<and> settings S = settings st
    \<and> c_added C = c_added c \<and> c_skipped C = c_skipped c"
  using assms by (simp add: scan_file_def Let_def)

lemma scan_file_raises:
  assumes "\<not> (lower (path_suffix f) \<notin> set VIDEO_EXTENSIONS \<or> str_in ''_shrync_'' f
      \<or> (CACHE_DIR e \<noteq> [] \<and> str_in (CACHE_DIR e) (os_path_join d f)))"
    and "select_existing st (os_path_join d f) = None" and "select_done st (os_path_join d f) = None"
    and "needs_conversion e (os_path_join d f)
           (fst (profile_to_ffmpeg (get_global_setting st ''conversion_profile'' ''nvenc_max'')))"
    and "getsize st (os_path_join d f) = Inl ex"
  shows "\<exists>S C. scan_file e lid d f st c = (S, C, Some ex) \<and> queue S = queue st
    \<and> history S = history st \<and> files S = files st \<and> settings S = settings st
    \<and> c_added C = c_added c \<and> c_skipped C = c_skipped c"
  using assms by (simp add: scan_file_def Let_def)

lemma scan_file_added:
  assumes "\<not> (lower (path_suffix f) \<notin> set VIDEO_EXTENSIONS \<or> str_in ''_shrync_'' f
      \<or> (CACHE_DIR e \<noteq> [] \<and> str_in (CACHE_DIR e) (os_path_join d f)))"
    and "select_existing st (os_path_join d f) = None" and "select_done st (os_path_join d f) = None"
    and "needs_conversion e (os_path_join d f)
           (fst (profile_to_ffmpeg (get_global_setting st ''conversion_profile'' ''nvenc_max'')))"
    and "getsize st (os_path_join d f) = Inr n"
  shows "\<exists>S C. scan_file e lid d f st c = (S, C, None)
    \<and> queue S = queue st @ [new_job (uuid4 e (uuids_drawn st)) (Some lid) (os_path_join d f) n]
    \<and> history S = history st \<and> files S = files st \<and> settings S = settings st
    \<and> c_added C = c_added c + 1 \<and> c_skipped C = c_skipped c"
  using assms by (simp add: scan_file_def Let_def draw_uuid_def insert_job_def)


lemma scan_file_keeps:
  assumes "scan_file e lid d f st c = (st', c', x)"
  shows "history st' = history st \<and> files st' = files st \<and> settings st' = settings st
    \<and> (\<exists>js. queue st' = queue st @ js)"
proof -
  let ?p = "os_path_join d f"
  let ?ign = "lower (path_suffix f) \<notin> set VIDEO_EXTENSIONS \<or> str_in ''_shrync_'' f
      \<or> (CACHE_DIR e \<noteq> [] \<and> str_in (CACHE_DIR e) ?p)"
  let ?nc = "needs_conversion e ?p
           (fst (profile_to_ffmpeg (get_global_setting st ''conversion_profile'' ''nvenc_max'')))"
  consider (ign) ?ign
    | (skip) "\<not> ?ign" "select_existing st ?p \<noteq> None \<or> select_done st ?p \<noteq> None"
    | (conv) "\<not> ?ign" "select_existing st ?p = None" "select_done st ?p = None" "\<not> ?nc"
    | (raise) ex where "\<not> ?ign" "select_existing st ?p = None" "select_done st ?p = None" ?nc
        "getsize st ?p = Inl ex"
    | (add) n where "\<not> ?ign" "select_existing st ?p = None" "select_done st ?p = None" ?nc
        "getsize st ?p = Inr n"
    by (cases "getsize st ?p") blast+
  then show ?thesis
  proof cases
    case ign
    from scan_file_ignored[OF this, of lid st c] assms show ?thesis by simp
  next
    case skip
    from scan_file_skipped[OF this, of lid c] assms show ?thesis by auto
  next
    case conv
    from scan_file_converted[OF this, of lid c] assms show ?thesis by auto
  next
    case raise
    from scan_file_raises[OF this, of lid c] assms show ?thesis by auto
  next
    case add
    from scan_file_added[OF this, of lid c] assms show ?thesis by auto
  qed
qed

lemma scan_files_keeps:
  assumes "scan_files e lid fs st c = (st', c', x)"
  shows "history st' = history st \<and> files st' = files st \<and> settings st' = settings st
    \<and> (\<exists>js. queue st' = queue st @ js)"
  using assms
proof (induction fs arbitrary: st c)
  case Nil
  then show ?case by simp
next
  case (Cons a fs)
  obtain d f where a: "a = (d, f)" by (cases a)
  obtain s1 c1 x1 where s: "scan_file e lid d f st c = (s1, c1, x1)"
    by (cases "scan_file e lid d f st c")
  note k = scan_file_keeps[OF s]
  show ?case
  proof (cases x1)
    case None
    with Cons.prems a s have "scan_files e lid fs s1 c1 = (st', c', x)" by simp
    from Cons.IH[OF this] k show ?thesis by auto
  next
    case (Some ex)
    with Cons.prems a s have "st' = s1" by simp
    with k show ?thesis by simp
  qed
qed

lemma scan_file_again:
  assumes run: "scan_file e lid d f st c = (s1, c1, x1)"
    and sub: "select_existing s1 (os_path_join d f) \<noteq> None
           \<longrightarrow> select_existing ST (os_path_join d f) \<noteq> None"
    and abort: "x1 \<noteq> None \<longrightarrow> select_existing ST (os_path_join d f) = None"
    and h: "history ST = history st" and fl: "files ST = files st"
    and se: "settings ST = settings st"
  shows "\<exists>ST1 C1. scan_file e lid d f ST C = (ST1, C1, x1)
      \<and> queue ST1 = queue ST \<and> history ST1 = history ST \<and> files ST1 = files ST
      \<and> settings ST1 = settings ST \<and> c_added C1 = c_added C
      \<and> c_skipped C + c_added c1 \<le> c_skipped C1 + c_added c"
proof -
  let ?p = "os_path_join d f"
  let ?ign = "lower (path_suffix f) \<notin> set VIDEO_EXTENSIONS \<or> str_in ''_shrync_'' f
      \<or> (CACHE_DIR e \<noteq> [] \<and> str_in (CACHE_DIR e) ?p)"
  let ?nc = "needs_conversion e ?p
           (fst (profile_to_ffmpeg (get_global_setting st ''conversion_profile'' ''nvenc_max'')))"
  have d: "select_done ST ?p = select_done st ?p"
    using h by (rule select_done_cong)
  have g: "getsize ST ?p = getsize st ?p"
    using fl by (rule getsize_cong)
  have s: "get_global_setting ST ''conversion_profile'' ''nvenc_max''
      = get_global_setting st ''conversion_profile'' ''nvenc_max''"
    using se by (rule get_global_setting_cong)
  consider (ign) ?ign
    | (skip) "\<not> ?ign" "select_existing st ?p \<noteq> None \<or> select_done st ?p \<noteq> None"
    | (conv) "\<not> ?ign" "select_existing st ?p = None" "select_done st ?p = None" "\<not> ?nc"
    | (raise) ex where "\<not> ?ign" "select_existing st ?p = None" "select_done st ?p = None" ?nc
        "getsize st ?p = Inl ex"
    | (add) n where "\<not> ?ign" "select_existing st ?p = None" "select_done st ?p = None" ?nc
        "getsize st ?p = Inr n"
    by (cases "getsize st ?p") blast+
  then show ?thesis
  proof cases
    case ign
    from scan_file_ignored[OF ign, of lid st c] run
    have r: "s1 = st" "c1 = c" "x1 = None" by simp_all
    from scan_file_ignored[OF ign, of lid ST C] r show ?thesis by simp
  next
    case skip
    from scan_file_skipped[OF skip, of lid c] run
    have r: "queue s1 = queue st" "c_added c1 = c_added c" "x1 = None" by auto
    have "select_existing ST ?p \<noteq> None \<or> select_done ST ?p \<noteq> None"
    proof (cases "select_existing st ?p \<noteq> None")
      case True
      then have "select_existing s1 ?p \<noteq> None"
        using select_existing_cong[OF r(1), of ?p] by simp
      with sub show ?thesis by simp
    next
      case False
      with skip(2) d show ?thesis by simp
    qed
    from scan_file_skipped[OF skip(1) this, of lid C] r show ?thesis by auto
  next
    case conv
    from scan_file_converted[OF conv, of lid c] run
    have r: "c_added c1 = c_added c" "x1 = None" by auto
    show ?thesis
    proof (cases "select_existing ST ?p \<noteq> None")
      case True
      then have "select_existing ST ?p \<noteq> None \<or> select_done ST ?p \<noteq> None" by simp
      from scan_file_skipped[OF conv(1) this, of lid C] r show ?thesis by auto
    next
      case False
      then have "select_existing ST ?p = None" by simp
      from scan_file_converted[of f e d ST lid C, OF conv(1) this] conv(3,4) d s r
      show ?thesis by auto
    qed
  next
    case raise
    from scan_file_raises[OF raise, of lid c] run
    have r: "c_added c1 = c_added c" "x1 = Some ex" by auto
    with abort have n: "select_existing ST ?p = None" by simp
    from scan_file_raises[of f e d ST ex lid C, OF raise(1) n] raise(3,4,5) d s g r
    show ?thesis by auto
  next
    case add
    from scan_file_added[OF add, of lid c] run
    have r: "queue s1 = queue st @ [new_job (uuid4 e (uuids_drawn st)) (Some lid) ?p n]"
      "c_added c1 = c_added c + 1" "x1 = None" by auto
    have "new_job (uuid4 e (uuids_drawn st)) (Some lid) ?p n \<in> set (queue s1)"
      using r(1) by simp
    moreover have "job_file_path (new_job (uuid4 e (uuids_drawn st)) (Some lid) ?p n) = ?p"
      "job_status (new_job (uuid4 e (uuids_drawn st)) (Some lid) ?p n) = St_pending"
      by (simp_all add: new_job_def)
    ultimately have "select_existing s1 ?p \<noteq> None"
      unfolding select_existing_def find_None_iff by blast
    with sub have "select_existing ST ?p \<noteq> None \<or> select_done ST ?p \<noteq> None" by simp
    from scan_file_skipped[OF add(1) this, of lid C] r show ?thesis by auto
  qed
qed


lemma scan_file_raised_not_queued:
  assumes "scan_file e lid d f st c = (s1, c1, Some ex)"
  shows "select_existing s1 (os_path_join d f) = None"
proof -
  let ?p = "os_path_join d f"
  let ?ign = "lower (path_suffix f) \<notin> set VIDEO_EXTENSIONS \<or> str_in ''_shrync_'' f
      \<or> (CACHE_DIR e \<noteq> [] \<and> str_in (CACHE_DIR e) ?p)"
  let ?nc = "needs_conversion e ?p
           (fst (profile_to_ffmpeg (get_global_setting st ''conversion_profile'' ''nvenc_max'')))"
  consider (ign) ?ign
    | (skip) "\<not> ?ign" "select_existing st ?p \<noteq> None \<or> select_done st ?p \<noteq> None"
    | (conv) "\<not> ?ign" "select_existing st ?p = None" "select_done st ?p = None" "\<not> ?nc"
    | (raise) ex' where "\<not> ?ign" "select_existing st ?p = None" "select_done st ?p = None" ?nc
        "getsize st ?p = Inl ex'"
    | (add) n where "\<not> ?ign" "select_existing st ?p = None" "select_done st ?p = None" ?nc
        "getsize st ?p = Inr n"
    by (cases "getsize st ?p") blast+
  then show ?thesis
  proof cases
    case ign
    from scan_file_ignored[OF this, of lid st c] assms show ?thesis by simp
  next
    case skip
    from scan_file_skipped[OF this, of lid c] assms show ?thesis by auto
  next
    case conv
    from scan_file_converted[OF this, of lid c] assms show ?thesis by auto
  next
    case raise
    from scan_file_raises[OF this, of lid c] assms have "queue s1 = queue st" by auto
    from select_existing_cong[OF this, of ?p] raise(2) show ?thesis by simp
  next
    case add
    from scan_file_added[OF this, of lid c] assms show ?thesis by auto
  qed
qed

lemma scan_files_again:
  assumes "scan_files e lid fs st c = (st', c', x)"
    and "\<forall>p. select_existing st' p \<noteq> None \<longleftrightarrow> select_existing ST p \<noteq> None"
    and "history ST = history st" and "files ST = files st" and "settings ST = settings st"
  shows "\<exists>ST' C'. scan_files e lid fs ST C = (ST', C', x)
      \<and> queue ST' = queue ST \<and> c_added C' = c_added C
      \<and> c_skipped C + c_added c' \<le> c_skipped C' + c_added c"
  using assms
proof (induction fs arbitrary: st c ST C)
  case Nil
  then show ?case by simp
next
  case (Cons a fs)
  obtain d f where a: "a = (d, f)" by (cases a)
  let ?p = "os_path_join d f"
  obtain s1 c1 x1 where s: "scan_file e lid d f st c = (s1, c1, x1)"
    by (cases "scan_file e lid d f st c")
  note k1 = scan_file_keeps[OF s]
  show ?case
  proof (cases x1)
    case None
    with Cons.prems(1) a s have rest: "scan_files e lid fs s1 c1 = (st', c', x)" by simp
    from scan_files_keeps[OF rest] obtain js where js: "queue st' = queue s1 @ js" by blast
    have sub: "select_existing s1 ?p \<noteq> None \<longrightarrow> select_existing ST ?p \<noteq> None"
      using select_existing_append[OF _ js, of ?p] Cons.prems(2) by blast
    have ab: "x1 \<noteq> None \<longrightarrow> select_existing ST ?p = None"
      using None by simp
    from scan_file_again[OF s sub ab Cons.prems(3,4,5), of C]
    obtain ST1 C1 where again: "scan_file e lid d f ST C = (ST1, C1, x1)"
      and q1: "queue ST1 = queue ST" and h1: "history ST1 = history ST"
      and f1: "files ST1 = files ST" and s1: "settings ST1 = settings ST"
      and a1: "c_added C1 = c_added C"
      and k: "c_skipped C + c_added c1 \<le> c_skipped C1 + c_added c"
      by blast
    have e1: "\<forall>p. select_existing st' p \<noteq> None \<longleftrightarrow> select_existing ST1 p \<noteq> None"
      using Cons.prems(2) select_existing_cong[OF q1] by simp
    have h: "history ST1 = history s1" "files ST1 = files s1" "settings ST1 = settings s1"
      using h1 f1 s1 k1 Cons.prems(3,4,5) by simp_all
    from Cons.IH[OF rest e1 h, of C1]
    obtain ST' C' where r: "scan_files e lid fs ST1 C1 = (ST', C', x)"
      and q: "queue ST' = queue ST1" and ad: "c_added C' = c_added C1"
      and kk: "c_skipped C1 + c_added c' \<le> c_skipped C' + c_added c1"
      by blast
    have "scan_files e lid (a # fs) ST C = (ST', C', x)"
      using a again None r by simp
    moreover have "queue ST' = queue ST" using q q1 by simp
    moreover have "c_added C' = c_added C" using ad a1 by simp
    moreover have "c_skipped C + c_added c' \<le> c_skipped C' + c_added c"
      using k kk by linarith
    ultimately show ?thesis by blast
  next
    case (Some ex)
    with Cons.prems(1) a s have fin: "st' = s1" "c' = c1" "x = Some ex" by simp_all
    have sub: "select_existing s1 ?p \<noteq> None \<longrightarrow> select_existing ST ?p \<noteq> None"
      using Cons.prems(2) fin by blast
    have "select_existing s1 ?p = None"
      using s Some scan_file_raised_not_queued by blast
    then have ab: "x1 \<noteq> None \<longrightarrow> select_existing ST ?p = None"
      using Cons.prems(2) fin by blast
    from scan_file_again[OF s sub ab Cons.prems(3,4,5), of C]
    obtain ST1 C1 where again: "scan_file e lid d f ST C = (ST1, C1, x1)"
      and q1: "queue ST1 = queue ST" and a1: "c_added C1 = c_added C"
      and k: "c_skipped C + c_added c1 \<le> c_skipped C1 + c_added c"
      by blast
    have "scan_files e lid (a # fs) ST C = (ST1, C1, x)"
      using a again Some fin by simp
    with q1 a1 k fin show ?thesis by blast
  qed
qed


lemma scan_file_libraries:
  assumes "scan_file e lid d f st c = (st', c', x)"
  shows "libraries st' = libraries st"
  using assms
  by (auto simp: scan_file_def Let_def draw_uuid_def insert_job_def
      split: if_splits sum.splits)

lemma scan_files_libraries:
  assumes "scan_files e lid fs st c = (st', c', x)"
  shows "libraries st' = libraries st"
  using assms
proof (induction fs arbitrary: st c)
  case Nil
  then show ?case by simp
next
  case (Cons a fs)
  obtain d f where a: "a = (d, f)" by (cases a)
  obtain s1 c1 x1 where s: "scan_file e lid d f st c = (s1, c1, x1)"
    by (cases "scan_file e lid d f st c")
  note k = scan_file_libraries[OF s]
  show ?case
  proof (cases x1)
    case None
    with Cons.prems a s have "scan_files e lid fs s1 c1 = (st', c', x)" by simp
    from Cons.IH[OF this] k show ?thesis by simp
  next
    case (Some ex)
    with Cons.prems a s have "st' = s1" by simp
    with k show ?thesis by simp
  qed
qed

lemma scan_library_no_library:
  assumes "find (\<lambda>l. lib_id l = lid) (libraries st) = None"
  shows "scan_library e now lid st = (st, No_library)"
  using assms by (simp add: scan_library_def)

lemma scan_library_root_error:
  assumes "find (\<lambda>l. lib_id l = lid) (libraries st) = Some lib"
    and "dir_tree e (lib_path lib) = None \<or> listdir_fails e (lib_path lib)"
  shows "\<exists>S. scan_library e now lid st = (S, Root_error) \<and> queue S = queue st
    \<and> libraries S = libraries st"
  using assms by (auto simp: scan_library_def Let_def split: option.splits)

lemma scan_library_walk:
  assumes "find (\<lambda>l. lib_id l = lid) (libraries st) = Some lib"
    and "dir_tree e (lib_path lib) = Some t" and "\<not> listdir_fails e (lib_path lib)"
    and "st1 = st\<lparr>scan_status := (scan_status st)(lid \<mapsto>
                      \<lparr>ss_status = Scanning, ss_scanned = 0, ss_added = 0, ss_skipped = 0,
                       ss_already_converted = 0, ss_current_file = [],
                       ss_path = lib_path lib, ss_error = None\<rparr>)\<rparr>"
    and "scan_files e lid (os_walk (lib_path lib) t) st1
           \<lparr>c_scanned = 0, c_added = 0, c_skipped = 0, c_already_converted = 0\<rparr> = (st2, c, x)"
  shows "\<exists>S. scan_library e now lid st
               = (S, case x of None \<Rightarrow> Completed c | Some ex \<Rightarrow> Aborted c ex)
    \<and> queue S = queue st2 \<and> history S = history st2 \<and> files S = files st2
    \<and> settings S = settings st2
    \<and> (\<exists>lib'. find (\<lambda>l. lib_id l = lid) (libraries S) = Some lib'
          \<and> lib_path lib' = lib_path lib)"
proof (cases x)
  case None
  have l2: "libraries st2 = libraries st"
    using scan_files_libraries[OF assms(5)] assms(4) by simp
  let ?libs = "map (\<lambda>l. if lib_id l = lid then l\<lparr>lib_last_scan := Some now\<rparr> else l)
      (libraries st2)"
  have "find (\<lambda>l. lib_id l = lid) ?libs = Some (lib\<lparr>lib_last_scan := Some now\<rparr>)"
    using find_map_update[of "\<lambda>l. lib_id l = lid" "libraries st2" lib
        "\<lambda>l. l\<lparr>lib_last_scan := Some now\<rparr>"] assms(1) l2
    by simp
  then show ?thesis
    using assms None
    by (simp add: scan_library_def Let_def)
next
  case (Some ex)
  have l2: "libraries st2 = libraries st"
    using scan_files_libraries[OF assms(5)] assms(4) by simp
  then show ?thesis
    using assms Some
    by (simp add: scan_library_def Let_def)
qed

text \<open>
  C7. Two calls of \<open>scan_library\<close> in a row, with the same directory listing, probe
  answers and files: the second call leaves the queue exactly as the first left it and
  adds nothing, and it counts as skipped at least as many files as the first call added.
  This holds however the first call ended (no such library, unreadable root, completed,
  or left by an exception).
\<close>

theorem scan_twice_adds_nothing:
  "queue (fst (scan_library e now' lid (fst (scan_library e now lid st))))
     = queue (fst (scan_library e now lid st))
   \<and> added_of (snd (scan_library e now' lid (fst (scan_library e now lid st)))) = 0
   \<and> added_of (snd (scan_library e now lid st))
       \<le> skipped_of (snd (scan_library e now' lid (fst (scan_library e now lid st))))"
proof (cases "find (\<lambda>l. lib_id l = lid) (libraries st)")
  case None
  then show ?thesis
    by (simp add: scan_library_no_library added_of_def skipped_of_def)
next
  case (Some lib)
  show ?thesis
  proof (cases "dir_tree e (lib_path lib) = None \<or> listdir_fails e (lib_path lib)")
    case True
    from scan_library_root_error[OF Some True, of now]
    obtain S where 1: "scan_library e now lid st = (S, Root_error)"
      and l: "libraries S = libraries st" by blast
    from Some l have "find (\<lambda>l. lib_id l = lid) (libraries S) = Some lib" by simp
    from scan_library_root_error[OF this True, of now']
    obtain S' where 2: "scan_library e now' lid S = (S', Root_error)"
      and q: "queue S' = queue S" by blast
    from 1 2 q show ?thesis by (simp add: added_of_def skipped_of_def)
  next
    case False
    then obtain t where t: "dir_tree e (lib_path lib) = Some t"
      and nl: "\<not> listdir_fails e (lib_path lib)" by auto
    let ?c0 = "\<lparr>c_scanned = 0, c_added = 0, c_skipped = 0, c_already_converted = 0\<rparr>"
    let ?info = "\<lparr>ss_status = Scanning, ss_scanned = 0, ss_added = 0, ss_skipped = 0,
                       ss_already_converted = 0, ss_current_file = [],
                       ss_path = lib_path lib, ss_error = None\<rparr>"
    let ?st1 = "st\<lparr>scan_status := (scan_status st)(lid \<mapsto> ?info)\<rparr>"
    obtain st2 c x where w: "scan_files e lid (os_walk (lib_path lib) t) ?st1 ?c0 = (st2, c, x)"
      by (cases "scan_files e lid (os_walk (lib_path lib) t) ?st1 ?c0")
    from scan_library_walk[OF Some t nl refl w, of now]
    obtain S lib' where 1: "scan_library e now lid st
               = (S, case x of None \<Rightarrow> Completed c | Some ex \<Rightarrow> Aborted c ex)"
      and qS: "queue S = queue st2" and hS: "history S = history st2"
      and fS: "files S = files st2" and sS: "settings S = settings st2"
      and lS: "find (\<lambda>l. lib_id l = lid) (libraries S) = Some lib'"
      and pS: "lib_path lib' = lib_path lib"
      by blast
    let ?ST = "S\<lparr>scan_status := (scan_status S)(lid \<mapsto> ?info)\<rparr>"
    note k = scan_files_keeps[OF w]
    have e: "\<forall>p. select_existing st2 p \<noteq> None \<longleftrightarrow> select_existing ?ST p \<noteq> None"
      using qS by (simp add: select_existing_def)
    have h: "history ?ST = history ?st1" "files ?ST = files ?st1" "settings ?ST = settings ?st1"
      using hS fS sS k by simp_all
    from scan_files_again[OF w e h, of ?c0]
    obtain ST' C' where w': "scan_files e lid (os_walk (lib_path lib) t) ?ST ?c0 = (ST', C', x)"
      and q': "queue ST' = queue ?ST" and a': "c_added C' = 0"
      and k': "c_added c \<le> c_skipped C'"
      by auto
    have t': "dir_tree e (lib_path lib') = Some t" and nl': "\<not> listdir_fails e (lib_path lib')"
      using t nl pS by simp_all
    have st1': "?ST = S\<lparr>scan_status := (scan_status S)(lid \<mapsto>
                      \<lparr>ss_status = Scanning, ss_scanned = 0, ss_added = 0, ss_skipped = 0,
                       ss_already_converted = 0, ss_current_file = [],
                       ss_path = lib_path lib', ss_error = None\<rparr>)\<rparr>"
      using pS by simp
    have w'': "scan_files e lid (os_walk (lib_path lib') t) ?ST ?c0 = (ST', C', x)"
      using w' pS by simp
    from scan_library_walk[OF lS t' nl' st1' w'', of now']
    obtain S' where 2: "scan_library e now' lid S
               = (S', case x of None \<Rightarrow> Completed C' | Some ex \<Rightarrow> Aborted C' ex)"
      and qS': "queue S' = queue ST'"
      by blast
    have "queue S' = queue S" using qS' q' by simp
    with 1 2 a' k' show ?thesis
      by (cases x) (simp_all add: added_of_def skipped_of_def)
  qed
qed

text \<open>
  On the concrete library the first scan adds the one video (the text file and the
  hidden directory are not counted), and the second scan skips it.
\<close>

lemma scan_twice_demo:
  "snd (scan_library demo_env_lib ''t0'' ''lib1'' demo_empty_state)
     = Completed \<lparr>c_scanned = 1, c_added = 1, c_skipped = 0, c_already_converted = 0\<rparr>
   \<and> snd (scan_library demo_env_lib ''t1'' ''lib1''
            (fst (scan_library demo_env_lib ''t0'' ''lib1'' demo_empty_state)))
     = Completed \<lparr>c_scanned = 1, c_added = 0, c_skipped = 1, c_already_converted = 0\<rparr>
   \<and> map job_file_path
        (queue (fst (scan_library demo_env_lib ''t1'' ''lib1''
                       (fst (scan_library demo_env_lib ''t0'' ''lib1'' demo_empty_state)))))
     = [''/lib/a/movie.mkv'']"
proof (intro conjI)
  show "snd (scan_library demo_env_lib ''t0'' ''lib1'' demo_empty_state)
     = Completed \<lparr>c_scanned = 1, c_added = 1, c_skipped = 0, c_already_converted = 0\<rparr>"
    by code_simp
  show "snd (scan_library demo_env_lib ''t1'' ''lib1''
            (fst (scan_library demo_env_lib ''t0'' ''lib1'' demo_empty_state)))
     = Completed \<lparr>c_scanned = 1, c_added = 0, c_skipped = 1, c_already_converted = 0\<rparr>"
    by code_simp
  show "map job_file_path
        (queue (fst (scan_library demo_env_lib ''t1'' ''lib1''
                       (fst (scan_library demo_env_lib ''t0'' ''lib1'' demo_empty_state)))))
     = [''/lib/a/movie.mkv'']"
    by code_simp
qed

end
